theory Spec2Isabelle
  imports Complex_Main "HOL-Library.Sublist"
begin

section \<open>Python primitives used by the drivers\<close>

text \<open>Exceptions are values; a function that may raise returns \<open>error + 'a\<close>.\<close>

datatype error = ValueError | IndexError | DuplicateOptionError | FileNotFoundError | ExtractionError

text \<open>
  \<^verbatim>\<open>list(product(a1, ..., aN))\<close> of itertools: one tuple per choice of one value from every
  axis, the rightmost axis varying fastest. A tuple is modelled as the list of its components.
\<close>

fun product_py :: "'a list list \<Rightarrow> 'a list list" where
  "product_py [] = [[]]"
| "product_py (xs # xss) = concat (map (\<lambda>x. map (\<lambda>t. x # t) (product_py xss)) xs)"

text \<open>\<^verbatim>\<open>str(n)\<close> on an integer: its decimal digits, with a leading minus sign when negative.\<close>

fun str_nat :: "nat \<Rightarrow> string" where
  "str_nat n = (if n < 10 then [''0123456789'' ! n]
                else str_nat (n div 10) @ [''0123456789'' ! (n mod 10)])"

declare str_nat.simps [simp del]

definition str_int :: "int \<Rightarrow> string" where
  "str_int i = (if i < 0 then CHR ''-'' # str_nat (nat (- i)) else str_nat (nat i))"

text \<open>\<^verbatim>\<open>sep.join(parts)\<close>.\<close>

fun str_join :: "string \<Rightarrow> string list \<Rightarrow> string" where
  "str_join sep [] = []"
| "str_join sep [x] = x"
| "str_join sep (x # y # ys) = x @ sep @ str_join sep (y # ys)"

text \<open>\<^verbatim>\<open>s in d\<close> on strings: \<open>s\<close> occurs in \<open>d\<close> as a contiguous substring.\<close>

fun sub_in :: "string \<Rightarrow> string \<Rightarrow> bool" where
  "sub_in s [] = (s = [])"
| "sub_in s (c # cs) = (prefix s (c # cs) \<or> sub_in s cs)"

text \<open>
  \<^verbatim>\<open>os.path.basename\<close>: what follows the last slash. \<^verbatim>\<open>Path(a) / b\<close> and
  \<^verbatim>\<open>os.path.join(a, b)\<close> for a relative component \<open>b\<close>.
\<close>

definition basename :: "string \<Rightarrow> string" where
  "basename p = rev (takeWhile (\<lambda>c. c \<noteq> CHR ''/'') (rev p))"

definition path_join :: "string \<Rightarrow> string \<Rightarrow> string" where
  "path_join a b = a @ ''/'' @ b"

section \<open>The sweep drivers\<close>

text \<open>
  The experiment object, the scheduler and the logger are external. Every call that reaches
  them is recorded, in order, as an event; the sweeps return the trace of their events.
  The terminal status that \<^verbatim>\<open>exp.get_status(session)[0]\<close> reports for the \<open>k\<close>-th session
  of a sweep, and the string that the \<open>k\<close>-th call of \<^verbatim>\<open>uuid4()\<close> yields, are inputs. The calls
  to the experiment, to the scheduler and to the database client are taken to return.
\<close>

datatype status = STATUS_COMPLETED | STATUS_FAILED | STATUS_CANCELLED

datatype model = Model (model_name: string) (model_path: string)

datatype event =
    Get_allocation int
  | Start_database int
  | Generate_model model
  | Write_run_config string "(string \<times> string) list"
  | Setup_resnet int bool
  | Start_model model
  | Get_status model
  | Log_error string
  | Stop_database int
  | Save_summary "(string \<times> string \<times> int list) list"
  | Release_allocation

text \<open>
  \<^verbatim>\<open>for x in xs: body\<close>, the body knowing the index of its iteration. Unpacking a tuple
  into \<open>n\<close> names raises ValueError unless it has \<open>n\<close> components; \<^verbatim>\<open>perm[i]\<close> raises
  IndexError beyond the tuple's length.
\<close>

fun for_loop :: "(nat \<Rightarrow> 'a \<Rightarrow> error + event list) \<Rightarrow> nat \<Rightarrow> 'a list \<Rightarrow> error + event list" where
  "for_loop body i [] = Inr []"
| "for_loop body i (x # xs) =
     (case body i x of
        Inl e \<Rightarrow> Inl e
      | Inr es \<Rightarrow> (case for_loop body (Suc i) xs of
                    Inl e \<Rightarrow> Inl e
                  | Inr rest \<Rightarrow> Inr (es @ rest)))"

text \<open>\<^verbatim>\<open>_get_uuid\<close>: the first four characters of a fresh uuid4 string.\<close>

definition get_uuid :: "string \<Rightarrow> string" where
  "get_uuid uid = take 4 uid"

text \<open>
  \<^verbatim>\<open>exp.create_model(name, settings)\<close> followed by \<^verbatim>\<open>exp.generate(model, overwrite=True)\<close>:
  the model's directory is the experiment directory joined with the model's name.
\<close>

definition create_model :: "string \<Rightarrow> string \<Rightarrow> model" where
  "create_model exp_path name = Model name (path_join exp_path name)"

subsection \<open>Run configuration record\<close>

text \<open>
  \<^verbatim>\<open>configparser.ConfigParser\<close>, as \<^verbatim>\<open>write_run_config\<close> uses it. Assigning a dictionary to a
  section lower-cases every option name, raises DuplicateOptionError when two names of the
  section then coincide, and raises ValueError when a value has a percent sign that is
  neither doubled nor the start of \<^verbatim>\<open>%(key)s\<close>: the check removes every \<^verbatim>\<open>%%\<close>, then every match
  of \<^verbatim>\<open>%\(([^)]+)\)s\<close>, and looks for a percent sign in what is left. Option names are taken
  to be ASCII.
\<close>

definition str_lower :: "string \<Rightarrow> string" where
  "str_lower s =
     map (\<lambda>c. case map_of (zip ''ABCDEFGHIJKLMNOPQRSTUVWXYZ'' ''abcdefghijklmnopqrstuvwxyz'') c of
                 None \<Rightarrow> c
               | Some l \<Rightarrow> l) s"

fun drop_escaped :: "string \<Rightarrow> string" where
  "drop_escaped [] = []"
| "drop_escaped [c] = [c]"
| "drop_escaped (c # d # cs) =
     (if c = CHR ''%'' \<and> d = CHR ''%'' then drop_escaped cs else c # drop_escaped (d # cs))"

function drop_keys :: "string \<Rightarrow> string" where
  "drop_keys [] = []"
| "drop_keys (c # cs) =
     (if c = CHR ''%'' \<and> take 1 cs = ''(''
         \<and> takeWhile (\<lambda>x. x \<noteq> CHR '')'') (drop 1 cs) \<noteq> []
         \<and> take 2 (dropWhile (\<lambda>x. x \<noteq> CHR '')'') (drop 1 cs)) = '')s''
      then drop_keys (drop 2 (dropWhile (\<lambda>x. x \<noteq> CHR '')'') (drop 1 cs)))
      else c # drop_keys cs)"
  by pat_completeness auto
termination
proof (relation "measure length")
  show "wf (measure length)" by simp
next
  fix c :: char and cs :: string
  have "length (dropWhile (\<lambda>x. x \<noteq> CHR '')'') (drop 1 cs)) \<le> length (drop 1 cs)"
    by (rule length_dropWhile_le)
  then show "(drop 2 (dropWhile (\<lambda>x. x \<noteq> CHR '')'') (drop 1 cs)), c # cs) \<in> measure length"
    by simp
next
  fix c :: char and cs :: string
  show "(cs, c # cs) \<in> measure length" by simp
qed

definition invalid_interpolation :: "string \<Rightarrow> bool" where
  "invalid_interpolation v = (CHR ''%'' \<in> set (drop_keys (drop_escaped v)))"

text \<open>
  The options of one section, in order: the first exception, if any. \<open>seen\<close> holds the
  lower-cased names already set.
\<close>

fun check_options :: "string list \<Rightarrow> (string \<times> string) list \<Rightarrow> error option" where
  "check_options seen [] = None"
| "check_options seen ((k, v) # kvs) =
     (if str_lower k \<in> set seen then Some DuplicateOptionError
      else if invalid_interpolation v then Some ValueError
      else check_options (str_lower k # seen) kvs)"

record environment =
  smartsim_version :: string
  db_backend :: string
  today :: string

type_synonym config = "(string \<times> (string \<times> string) list) list"

definition run_section :: "environment \<Rightarrow> string \<Rightarrow> (string \<times> string) list" where
  "run_section env path =
     [(''name'', basename path),
      (''path'', path),
      (''smartsim_version'', smartsim_version env),
      (''smartredis_version'', ''0.3.1''),
      (''db'', db_backend env),
      (''date'', today env)]"

text \<open>
  The exception that \<^verbatim>\<open>write_run_config(path, **kwargs)\<close> raises, if any: the section \<^verbatim>\<open>run\<close> is
  assigned first, then the section \<^verbatim>\<open>attributes\<close>; the file is opened only after both.
\<close>

definition run_config_error :: "environment \<Rightarrow> string \<Rightarrow> (string \<times> string) list \<Rightarrow> error option" where
  "run_config_error env path kwargs =
     (case check_options [] (run_section env path) of
        Some e \<Rightarrow> Some e
      | None \<Rightarrow> check_options [] kwargs)"

definition write_run_config ::
  "environment \<Rightarrow> (string \<rightharpoonup> config) \<Rightarrow> string \<Rightarrow> (string \<times> string) list \<Rightarrow> error + (string \<rightharpoonup> config)" where
  "write_run_config env fs path kwargs =
     (case run_config_error env path kwargs of
        Some e \<Rightarrow> Inl e
      | None \<Rightarrow>
          (let config = [(''run'', map (\<lambda>(k, v). (str_lower k, v)) (run_section env path)),
                         (''attributes'', map (\<lambda>(k, v). (str_lower k, v)) kwargs)];
               config_path = path_join path ''run.cfg''
           in Inr (fs(config_path \<mapsto> config))))"

text \<open>
  The calls of a session's creation, in order: the first exception that one of them
  raises, if any. Only writing the run configuration can raise.
\<close>

fun session_error :: "environment \<Rightarrow> event list \<Rightarrow> error option" where
  "session_error env [] = None"
| "session_error env (Write_run_config p kwargs # es) =
     (case run_config_error env p kwargs of
        Some e \<Rightarrow> Some e
      | None \<Rightarrow> session_error env es)"
| "session_error env (e # es) = session_error env es"

subsection \<open>Sessions of \<^verbatim>\<open>driver.py\<close>\<close>

definition create_inference_session ::
  "string \<Rightarrow> int \<Rightarrow> int \<Rightarrow> int \<Rightarrow> int \<Rightarrow> int \<Rightarrow> int \<Rightarrow> string \<Rightarrow> int \<Rightarrow> string \<Rightarrow> model \<times> event list" where
  "create_inference_session exp_path nodes tasks db_nodes db_cpus db_tpq batch_size device num_devices uid =
     (let name = str_join ''-'' [''infer-sess'',
                                 ''N'' @ str_int nodes,
                                 ''T'' @ str_int tasks,
                                 ''DBN'' @ str_int db_nodes,
                                 ''DBC'' @ str_int db_cpus,
                                 ''DBTPQ'' @ str_int db_tpq,
                                 get_uuid uid];
          m = create_model exp_path name
      in (m, [Generate_model m,
              Write_run_config (model_path m)
                [(''colocated'', str_int 0),
                 (''client_total'', str_int (tasks * nodes)),
                 (''client_per_node'', str_int tasks),
                 (''client_nodes'', str_int nodes),
                 (''database_nodes'', str_int db_nodes),
                 (''database_cpus'', str_int db_cpus),
                 (''database_threads_per_queue'', str_int db_tpq),
                 (''batch_size'', str_int batch_size),
                 (''device'', device),
                 (''num_devices'', str_int num_devices)]]))"

definition create_colocated_inference_session ::
  "string \<Rightarrow> int \<Rightarrow> int \<Rightarrow> int \<Rightarrow> int \<Rightarrow> int \<Rightarrow> int \<Rightarrow> string \<Rightarrow> int \<Rightarrow> string \<Rightarrow> model \<times> event list" where
  "create_colocated_inference_session exp_path nodes tasks pin_app_cpus db_cpus db_tpq batch_size device num_devices uid =
     (let name = str_join ''-'' [''infer-sess-colo'',
                                 ''N'' @ str_int nodes,
                                 ''T'' @ str_int tasks,
                                 ''DBN'' @ str_int nodes,
                                 ''DBC'' @ str_int db_cpus,
                                 ''DBTPQ'' @ str_int db_tpq,
                                 get_uuid uid];
          m = create_model exp_path name
      in (m, [Generate_model m,
              Write_run_config (model_path m)
                [(''colocated'', str_int 1),
                 (''pin_app_cpus'', str_int pin_app_cpus),
                 (''client_total'', str_int (tasks * nodes)),
                 (''client_per_node'', str_int tasks),
                 (''client_nodes'', str_int nodes),
                 (''database_nodes'', str_int nodes),
                 (''database_cpus'', str_int db_cpus),
                 (''database_threads_per_queue'', str_int db_tpq),
                 (''batch_size'', str_int batch_size),
                 (''device'', device),
                 (''num_devices'', str_int num_devices)]]))"

definition create_throughput_session ::
  "string \<Rightarrow> int \<Rightarrow> int \<Rightarrow> int \<Rightarrow> int \<Rightarrow> int \<Rightarrow> int \<Rightarrow> string \<Rightarrow> model \<times> event list" where
  "create_throughput_session exp_path nodes tasks db_nodes db_cpus iterations bytes uid =
     (let name = str_join ''-'' [''throughput-sess'',
                                 ''N'' @ str_int nodes,
                                 ''T'' @ str_int tasks,
                                 ''DBN'' @ str_int db_nodes,
                                 ''ITER'' @ str_int iterations,
                                 ''TB'' @ str_int bytes,
                                 get_uuid uid];
          m = create_model exp_path name
      in (m, [Generate_model m,
              Write_run_config (model_path m)
                [(''client_total'', str_int (tasks * nodes)),
                 (''client_per_node'', str_int tasks),
                 (''client_nodes'', str_int nodes),
                 (''database_nodes'', str_int db_nodes),
                 (''database_cpus'', str_int db_cpus),
                 (''iterations'', str_int iterations),
                 (''tensor_bytes'', str_int bytes)]]))"

subsection \<open>Sweeps of \<^verbatim>\<open>driver.py\<close>\<close>

text \<open>
  The arguments that only travel to \<^verbatim>\<open>start_database\<close> (launcher, port, interface, batch
  arguments, hosts) are left out: starting the database is one event. An inference sweep
  ends with the exception that creating a session raises.
\<close>

definition inference_standard_run ::
  "environment \<Rightarrow> (nat \<Rightarrow> string) \<Rightarrow> (nat \<Rightarrow> status) \<Rightarrow> string \<Rightarrow> string \<Rightarrow> int \<Rightarrow>
   nat \<Rightarrow> int list \<Rightarrow> error + event list" where
  "inference_standard_run env uuid4 get_status exp_path device num_devices k perm =
     (if length perm \<noteq> 6 then Inl ValueError
      else (let c_nodes = perm ! 0; cpn = perm ! 1; dbn = perm ! 2;
                dbc = perm ! 3; dbtpq = perm ! 4; batch = perm ! 5;
                (infer_session, created) =
                  create_inference_session exp_path c_nodes cpn dbn dbc dbtpq batch device num_devices (uuid4 k)
            in case session_error env created of
                 Some e \<Rightarrow> Inl e
               | None \<Rightarrow>
                   Inr ([Start_database dbn] @ created @
                        [Setup_resnet batch (dbn > 1),
                         Start_model infer_session,
                         Stop_database dbn,
                         Get_status infer_session] @
                        (if get_status k \<noteq> STATUS_COMPLETED
                         then [Log_error (''One of the scaling tests failed '' @ model_name infer_session)]
                         else []))))"

definition inference_standard ::
  "environment \<Rightarrow> (nat \<Rightarrow> string) \<Rightarrow> (nat \<Rightarrow> status) \<Rightarrow> string \<Rightarrow> string \<Rightarrow> int \<Rightarrow>
   int list \<Rightarrow> int list \<Rightarrow> int list \<Rightarrow> int list \<Rightarrow> int list \<Rightarrow> int list \<Rightarrow> error + event list" where
  "inference_standard env uuid4 get_status exp_path device num_devices
                      client_nodes clients_per_node db_nodes db_cpus db_tpq batch_size =
     (let perms = product_py [client_nodes, clients_per_node, db_nodes, db_cpus, db_tpq, batch_size]
      in for_loop (inference_standard_run env uuid4 get_status exp_path device num_devices) 0 perms)"



text \<open>
  The throughput sweep is given as the trace of its calls when none of them raises;
  \<open>session_error\<close> tells whether writing the run configuration of a session does.
\<close>

definition throughput_scaling_run ::
  "(nat \<Rightarrow> string) \<Rightarrow> (nat \<Rightarrow> status) \<Rightarrow> string \<Rightarrow> int \<Rightarrow> int \<Rightarrow> int \<Rightarrow> nat \<Rightarrow> int list \<Rightarrow> error + event list" where
  "throughput_scaling_run uuid4 get_status exp_path db_node_count db_cpus iterations k perm =
     (if length perm \<noteq> 3 then Inl ValueError
      else (let c_nodes = perm ! 0; cpn = perm ! 1; bytes = perm ! 2;
                (throughput_session, created) =
                  create_throughput_session exp_path c_nodes cpn db_node_count db_cpus iterations bytes (uuid4 k)
            in Inr (created @
                    [Start_model throughput_session,
                     Get_status throughput_session] @
                    (if get_status k \<noteq> STATUS_COMPLETED
                     then [Log_error (''ERROR: One of the scaling tests failed '' @ model_name throughput_session)]
                     else []))))"

text \<open>
  The outer loop runs once per entry of \<open>db_nodes\<close>; the \<open>g\<close>-th group holds the sessions
  numbered from \<open>g * length perms\<close>.
\<close>

definition throughput_scaling_group ::
  "(nat \<Rightarrow> string) \<Rightarrow> (nat \<Rightarrow> status) \<Rightarrow> string \<Rightarrow> int \<Rightarrow> int \<Rightarrow>
   int list \<Rightarrow> int list \<Rightarrow> int list \<Rightarrow> nat \<Rightarrow> int \<Rightarrow> error + event list" where
  "throughput_scaling_group uuid4 get_status exp_path db_cpus iterations
                            clients_per_node client_nodes tensor_bytes g db_node_count =
     (let perms = product_py [client_nodes, clients_per_node, tensor_bytes]
      in case for_loop (throughput_scaling_run uuid4 get_status exp_path db_node_count db_cpus iterations)
                       (g * length perms) perms of
           Inl e \<Rightarrow> Inl e
         | Inr runs \<Rightarrow> Inr ([Start_database db_node_count] @ runs @ [Stop_database db_node_count]))"

definition throughput_scaling ::
  "(nat \<Rightarrow> string) \<Rightarrow> (nat \<Rightarrow> status) \<Rightarrow> string \<Rightarrow> int list \<Rightarrow> int \<Rightarrow>
   int list \<Rightarrow> int list \<Rightarrow> int \<Rightarrow> int list \<Rightarrow> error + event list" where
  "throughput_scaling uuid4 get_status exp_path db_nodes db_cpus
                      clients_per_node client_nodes iterations tensor_bytes =
     for_loop (throughput_scaling_group uuid4 get_status exp_path db_cpus iterations
                 clients_per_node client_nodes tensor_bytes) 0 db_nodes"

subsection \<open>The sweep of \<^verbatim>\<open>cpp-throughput/driver.py\<close>\<close>

definition create_throughput_session_slurm :: "string \<Rightarrow> int \<Rightarrow> int \<Rightarrow> int \<Rightarrow> int \<Rightarrow> model \<times> event list" where
  "create_throughput_session_slurm exp_path nodes tasks db bytes =
     (let name = str_join ''-'' [''throughput-sess'', str_int nodes, str_int tasks, str_int db, str_int bytes];
          m = create_model exp_path name
      in (m, [Generate_model m]))"

definition create_post_process :: "string \<Rightarrow> string \<Rightarrow> model" where
  "create_post_process mpath name = Model (str_join ''-'' [''post'', name]) mpath"

text \<open>
  The loop of \<^verbatim>\<open>SlurmScalingTests.throughput\<close>, with its \<^verbatim>\<open>break\<close>: the result is the trace
  and the \<open>data_locations\<close> gathered so far.
\<close>

fun throughput_loop ::
  "(nat \<Rightarrow> status) \<Rightarrow> string \<Rightarrow> nat \<Rightarrow> int list list \<Rightarrow> (string \<times> string \<times> int list) list \<Rightarrow>
   error + (event list \<times> (string \<times> string \<times> int list) list)" where
  "throughput_loop get_status exp_path k [] data_locations = Inr ([], data_locations)"
| "throughput_loop get_status exp_path k (perm # perms) data_locations =
     (if length perm < 4 then Inl IndexError
      else (let db_node_count = perm ! 2;
                (scale_session, created) =
                  create_throughput_session_slurm exp_path (perm ! 0) (perm ! 1) (perm ! 2) (perm ! 3);
                launched = [Start_database db_node_count] @ created @
                           [Start_model scale_session, Get_status scale_session]
            in if get_status k \<noteq> STATUS_COMPLETED
               then Inr (launched @
                         [Log_error (''ERROR: One of the scaling tests failed '' @ model_name scale_session)],
                         data_locations)
               else (let post = create_post_process (model_path scale_session) (model_name scale_session);
                         data_locations' = data_locations @
                           [(model_path scale_session, model_name scale_session, perm)]
                     in case throughput_loop get_status exp_path (Suc k) perms data_locations' of
                          Inl e \<Rightarrow> Inl e
                        | Inr (rest, dl) \<Rightarrow>
                            Inr (launched @ [Start_model post, Stop_database db_node_count] @ rest, dl))))"

definition throughput ::
  "(nat \<Rightarrow> status) \<Rightarrow> string \<Rightarrow> int list \<Rightarrow> int list \<Rightarrow> int list \<Rightarrow> int list \<Rightarrow> error + event list" where
  "throughput get_status exp_path db_nodes clients_per_node client_nodes tensor_bytes =
     (if client_nodes = [] then Inl ValueError
      else (let perms = product_py [client_nodes, clients_per_node, db_nodes, tensor_bytes]
            in case throughput_loop get_status exp_path 0 perms [] of
                 Inl e \<Rightarrow> Inl e
               | Inr (trace, data_locations) \<Rightarrow>
                   Inr ([Get_allocation (Max (set client_nodes))] @ trace @
                        [Save_summary data_locations, Release_allocation])))"

section \<open>Result aggregation\<close>

text \<open>
  Files are a map from path to content; writing a file always succeeds. What
  \<^verbatim>\<open>os.listdir(scaling_dir)\<close> returns is an input (\<open>None\<close> when the directory is missing).
  \<^verbatim>\<open>create_run_csv\<close> lives in \<^verbatim>\<open>process_results.py\<close> and is a parameter here: given the run's
  path, the flag and the files it returns the files it leaves, the run paths whose raw files
  it scanned, and the exception it raised, if any. \<^verbatim>\<open>pd.read_csv\<close> and \<^verbatim>\<open>DataFrame.to_csv\<close> are parameters too;
  a data frame is the list of its rows.
\<close>

datatype agg_event =
    Call_create_run_csv string bool
  | Scan_raw_files string
  | Call_read_csv string
  | Log_warning string
  | Log_exception error
  | Log_failure string

type_synonym 'c files = "string \<rightharpoonup> 'c"

type_synonym 'c extractor = "string \<Rightarrow> bool \<Rightarrow> 'c files \<Rightarrow> 'c files \<times> string list \<times> error option"

fun process_loop :: "'c extractor \<Rightarrow> string \<Rightarrow> bool \<Rightarrow> string list \<Rightarrow> 'c files \<Rightarrow> 'c files \<times> agg_event list" where
  "process_loop create_run_csv scaling_dir overwrite [] fs = (fs, [])"
| "process_loop create_run_csv scaling_dir overwrite (run # runs) fs =
     (let run_path = path_join scaling_dir run;
          (fs1, scans, raised) = create_run_csv run_path overwrite fs;
          skipped = (case raised of
                       None \<Rightarrow> []
                     | Some e \<Rightarrow> [Log_warning (''Skipping '' @ run @ '' could not process results''),
                                 Log_exception e]);
          (fs2, rest) = process_loop create_run_csv scaling_dir overwrite runs fs1
      in (fs2, [Call_create_run_csv run_path overwrite] @ map Scan_raw_files scans @ skipped @ rest))"

definition results_path :: "string \<Rightarrow> string \<Rightarrow> string" where
  "results_path result_dir run = path_join (path_join result_dir run) (run @ ''.csv'')"

definition pd_read_csv :: "('c \<Rightarrow> 'r list option) \<Rightarrow> 'c files \<Rightarrow> string \<Rightarrow> error + 'r list" where
  "pd_read_csv read_csv fs p =
     (case fs p of
        None \<Rightarrow> Inl FileNotFoundError
      | Some c \<Rightarrow> (case read_csv c of None \<Rightarrow> Inl ValueError | Some df \<Rightarrow> Inr df))"

fun collect_loop ::
  "('c \<Rightarrow> 'r list option) \<Rightarrow> string \<Rightarrow> string list \<Rightarrow> 'c files \<Rightarrow> 'r list list \<Rightarrow> 'r list list \<times> agg_event list" where
  "collect_loop read_csv result_dir [] fs dataframes = (dataframes, [])"
| "collect_loop read_csv result_dir (run # runs) fs dataframes =
     (let p = results_path result_dir run
      in case pd_read_csv read_csv fs p of
           Inr run_df \<Rightarrow>
             (let (dfs, rest) = collect_loop read_csv result_dir runs fs (dataframes @ [run_df])
              in (dfs, Call_read_csv p # rest))
         | Inl e \<Rightarrow>
             (let (dfs, rest) = collect_loop read_csv result_dir runs fs dataframes
              in (dfs, [Call_read_csv p,
                        Log_warning (''Skipping '' @ run @ '' could not read results csv''),
                        Log_exception e] @ rest)))"

definition process_scaling_results ::
  "'c extractor \<Rightarrow> ('c \<Rightarrow> 'r list option) \<Rightarrow> ('r list \<Rightarrow> 'c) \<Rightarrow> string \<Rightarrow>
   string list option \<Rightarrow> string \<Rightarrow> bool \<Rightarrow> 'c files \<Rightarrow> 'c files \<times> agg_event list \<times> error option" where
  "process_scaling_results create_run_csv read_csv to_csv date listdir scaling_dir overwrite fs =
     (case listdir of
        None \<Rightarrow> (fs, [], Some FileNotFoundError)
      | Some entries \<Rightarrow>
          (let result_dir = path_join scaling_dir ''results'';
               runs = filter (\<lambda>d. sub_in ''sess'' d) entries;
               (fs1, log1) = process_loop create_run_csv scaling_dir overwrite runs fs;
               (dataframes, log2) = collect_loop read_csv result_dir runs fs1 []
           in if dataframes = []
              then (fs1, log1 @ log2 @ [Log_failure ''Could not preprocess results''], Some ValueError)
              else (let final_df = concat dataframes;
                        exp_name = basename scaling_dir;
                        csv_path = path_join result_dir (exp_name @ ''-'' @ date @ ''.csv'')
                    in (fs1(csv_path \<mapsto> to_csv final_df), log1 @ log2, None))))"

text \<open>
  Modelled from the spec: \<^verbatim>\<open>create_run_csv\<close> of \<^verbatim>\<open>process_results.py\<close>, which is not among the
  sources. Per-run extraction scans the raw metric files of the run's directory and writes
  the per-run CSV named after the run into the results directory; when that CSV already
  exists and overwriting is not requested, extraction is skipped. The scan of the raw
  files is the parameter \<open>scan\<close>: the CSV content for a run path, or \<open>None\<close> when the raw
  files are missing or malformed.
\<close>

definition dirname :: "string \<Rightarrow> string" where
  "dirname p = rev (drop 1 (dropWhile (\<lambda>c. c \<noteq> CHR ''/'') (rev p)))"

definition create_run_csv_spec :: "(string \<Rightarrow> 'c option) \<Rightarrow> 'c extractor" where
  "create_run_csv_spec scan run_path delete_previous fs =
     (let run = basename run_path;
          csv = results_path (path_join (dirname run_path) ''results'') run
      in if fs csv \<noteq> None \<and> \<not> delete_previous then (fs, [], None)
         else (case scan run_path of
                 None \<Rightarrow> (fs, [run_path], Some ExtractionError)
               | Some content \<Rightarrow> (fs(csv \<mapsto> content), [run_path], None)))"

section \<open>Observations on traces\<close>

text \<open>The sessions started by a trace, and the errors it logged, each in order.\<close>

fun started_models :: "event list \<Rightarrow> model list" where
  "started_models [] = []"
| "started_models (Start_model m # es) = m # started_models es"
| "started_models (e # es) = started_models es"

fun logged_errors :: "event list \<Rightarrow> string list" where
  "logged_errors [] = []"
| "logged_errors (Log_error msg # es) = msg # logged_errors es"
| "logged_errors (e # es) = logged_errors es"


text \<open>
  Replaying a trace on the files: every session is started only when its directory holds
  a \<^verbatim>\<open>run.cfg\<close> with the sections \<^verbatim>\<open>run\<close> and \<^verbatim>\<open>attributes\<close>. A write that raises leaves the
  files as they are.
\<close>

fun launched_with_config :: "environment \<Rightarrow> (string \<rightharpoonup> config) \<Rightarrow> event list \<Rightarrow> bool" where
  "launched_with_config env fs [] = True"
| "launched_with_config env fs (Write_run_config p kwargs # es) =
     (case write_run_config env fs p kwargs of
        Inl e \<Rightarrow> launched_with_config env fs es
      | Inr fs' \<Rightarrow> launched_with_config env fs' es)"
| "launched_with_config env fs (Start_model m # es) =
     (map_option (map fst) (fs (path_join (model_path m) ''run.cfg'')) = Some [''run'', ''attributes'']
      \<and> launched_with_config env fs es)"
| "launched_with_config env fs (e # es) = launched_with_config env fs es"

text \<open>The files after the run configurations written by a trace.\<close>

fun written_configs :: "environment \<Rightarrow> (string \<rightharpoonup> config) \<Rightarrow> event list \<Rightarrow> (string \<rightharpoonup> config)" where
  "written_configs env fs [] = fs"
| "written_configs env fs (Write_run_config p kwargs # es) =
     (case write_run_config env fs p kwargs of
        Inl e \<Rightarrow> written_configs env fs es
      | Inr fs' \<Rightarrow> written_configs env fs' es)"
| "written_configs env fs (e # es) = written_configs env fs es"

text \<open>
  The life cycle of the databases and sessions in a trace: the starts and stops of
  databases, the starts of sessions, the status checks and the logged errors, in order.
\<close>

fun lifecycle :: "event list \<Rightarrow> event list" where
  "lifecycle [] = []"
| "lifecycle (Start_database n # es) = Start_database n # lifecycle es"
| "lifecycle (Stop_database n # es) = Stop_database n # lifecycle es"
| "lifecycle (Start_model m # es) = Start_model m # lifecycle es"
| "lifecycle (Get_status m # es) = Get_status m # lifecycle es"
| "lifecycle (Log_error msg # es) = Log_error msg # lifecycle es"
| "lifecycle (e # es) = lifecycle es"

text \<open>Strings with no percent sign; an environment whose three values are such.\<close>

definition plain :: "string \<Rightarrow> bool" where
  "plain s = (CHR ''%'' \<notin> set s)"

definition plain_environment :: "environment \<Rightarrow> bool" where
  "plain_environment env = (plain (smartsim_version env) \<and> plain (db_backend env) \<and> plain (today env))"

text \<open>
  What an aggregation pass did, read off its log: the run paths handed to
  \<^verbatim>\<open>create_run_csv\<close>, the paths handed to \<^verbatim>\<open>pd.read_csv\<close>, the run paths whose raw files were
  scanned, and the warnings.
\<close>

fun create_run_csv_calls :: "agg_event list \<Rightarrow> string list" where
  "create_run_csv_calls [] = []"
| "create_run_csv_calls (Call_create_run_csv p b # es) = p # create_run_csv_calls es"
| "create_run_csv_calls (e # es) = create_run_csv_calls es"

fun read_csv_calls :: "agg_event list \<Rightarrow> string list" where
  "read_csv_calls [] = []"
| "read_csv_calls (Call_read_csv p # es) = p # read_csv_calls es"
| "read_csv_calls (e # es) = read_csv_calls es"

fun scanned :: "agg_event list \<Rightarrow> string list" where
  "scanned [] = []"
| "scanned (Scan_raw_files p # es) = p # scanned es"
| "scanned (e # es) = scanned es"

fun warnings :: "agg_event list \<Rightarrow> string list" where
  "warnings [] = []"
| "warnings (Log_warning msg # es) = msg # warnings es"
| "warnings (e # es) = warnings es"

text \<open>The data frames of the runs whose per-run CSV can be read, in the order of the runs.\<close>

definition readable_frames :: "('c \<Rightarrow> 'r list option) \<Rightarrow> string \<Rightarrow> 'c files \<Rightarrow> string list \<Rightarrow> 'r list list" where
  "readable_frames read_csv result_dir fs runs =
     concat (map (\<lambda>run. case pd_read_csv read_csv fs (results_path result_dir run) of
                          Inl e \<Rightarrow> []
                        | Inr df \<Rightarrow> [df]) runs)"

text \<open>The files that extraction leaves after handling the runs one after the other.\<close>

definition extracted_files :: "'c extractor \<Rightarrow> string \<Rightarrow> bool \<Rightarrow> string list \<Rightarrow> 'c files \<Rightarrow> 'c files" where
  "extracted_files create_run_csv scaling_dir overwrite runs fs =
     foldl (\<lambda>fs run. fst (create_run_csv (path_join scaling_dir run) overwrite fs)) fs runs"

text \<open>Concrete schedules of statuses and of uuid4 strings, for evaluating the sweeps.\<close>

definition status_list :: "status list \<Rightarrow> nat \<Rightarrow> status" where
  "status_list sts k = (if k < length sts then sts ! k else STATUS_COMPLETED)"

definition uuid_list :: "string list \<Rightarrow> nat \<Rightarrow> string" where
  "uuid_list us k = (if k < length us then us ! k else ''00000000-0000-4000-8000-000000000000'')"

section \<open>Evaluating the string primitives\<close>

lemma str_nat_small: "n < 10 \<Longrightarrow> str_nat n = [''0123456789'' ! n]"
  by (simp add: str_nat.simps)

lemma str_nat_big: "10 \<le> n \<Longrightarrow> str_nat n = str_nat (n div 10) @ [''0123456789'' ! (n mod 10)]"
  by (subst str_nat.simps) simp

lemmas str_eval = str_int_def str_nat_small str_nat_big

lemmas session_eval =
  create_inference_session_def create_colocated_inference_session_def create_throughput_session_def
  create_throughput_session_slurm_def create_post_process_def create_model_def path_join_def
  get_uuid_def status_list_def uuid_list_def Let_def

section \<open>Properties of the permutation generator\<close>

lemma length_product_py: "length (product_py axes) = prod_list (map length axes)"
proof (induction axes)
  case Nil show ?case by simp
next
  case (Cons xs xss)
  have "length (concat (map (\<lambda>x. map (\<lambda>t. x # t) (product_py xss)) xs)) = length xs * length (product_py xss)"
    by (induction xs) simp_all
  with Cons show ?case by simp
qed

lemma set_product_py: "set (product_py axes) = {t. list_all2 (\<lambda>v a. v \<in> set a) t axes}"
proof (induction axes)
  case Nil show ?case by auto
next
  case (Cons xs xss)
  show ?case by (auto simp: Cons list_all2_Cons2)
qed

lemma length_in_product_py: "t \<in> set (product_py axes) \<Longrightarrow> length t = length axes"
  by (simp add: set_product_py list_all2_lengthD)

lemma sorted_lex_block:
  "sorted_wrt (<) (xs::nat list) \<Longrightarrow> sorted_wrt (\<lambda>s t. (s, t) \<in> lexord {(i, j). i < j}) P
   \<Longrightarrow> sorted_wrt (\<lambda>s t. (s, t) \<in> lexord {(i, j). i < j}) (concat (map (\<lambda>x. map (\<lambda>t. x # t) P) xs))"
  by (induction xs) (auto simp: sorted_wrt_append sorted_wrt_map)

lemma sorted_index_product:
  "sorted_wrt (\<lambda>s t. (s, t) \<in> lexord {(i, j). i < (j::nat)}) (product_py (map (\<lambda>a. [0..<length a]) axes))"
  by (induction axes) (auto intro!: sorted_lex_block)

lemma pick_product:
  "product_py axes = map (\<lambda>idx. map2 (\<lambda>a i. a ! i) axes idx) (product_py (map (\<lambda>a. [0..<length a]) axes))"
proof (induction axes)
  case Nil show ?case by simp
next
  case (Cons xs xss)
  let ?P = "product_py (map (\<lambda>a. [0..<length a]) xss)"
  have "product_py (xs # xss) = concat (map (\<lambda>x. map (\<lambda>t. x # t) (product_py xss)) (map (\<lambda>i. xs ! i) [0..<length xs]))"
    by (simp only: map_nth product_py.simps)
  also have "\<dots> = concat (map (\<lambda>i. map (\<lambda>t. xs ! i # t) (map (\<lambda>idx. map2 (\<lambda>a i. a ! i) xss idx) ?P)) [0..<length xs])"
    using Cons.IH by (simp add: comp_def)
  also have "\<dots> = map (\<lambda>idx. map2 (\<lambda>a i. a ! i) (xs # xss) idx) (product_py (map (\<lambda>a. [0..<length a]) (xs # xss)))"
    by (simp add: map_concat comp_def)
  finally show ?case .
qed

lemma product_py_empty_iff: "(product_py axes = []) = ([] \<in> set axes)"
  by (induction axes) auto

text \<open>
  Claim C2. For axes with \<open>k\<^sub>1, \<dots>, k\<^sub>N\<close> candidate values the generator yields exactly
  \<open>k\<^sub>1 * \<dots> * k\<^sub>N\<close> tuples; the tuples are exactly the choices of one value from each axis, in
  axis order; the sequence is the image of the index tuples, which come strictly increasing
  in lexicographic order. Nothing is filtered or merged: the count does not depend on the
  values, so repeated values give repeated tuples.
\<close>

theorem product_py_cartesian:
  "length (product_py axes) = prod_list (map length axes)
   \<and> set (product_py axes) = {t. list_all2 (\<lambda>v a. v \<in> set a) t axes}
   \<and> product_py axes
       = map (\<lambda>idx. map2 (\<lambda>a i. a ! i) axes idx) (product_py (map (\<lambda>a. [0..<length a]) axes))
   \<and> sorted_wrt (\<lambda>s t. (s, t) \<in> lexord {(i, j). i < j})
        (product_py (map (\<lambda>a. [0..<length a]) axes))"
  using length_product_py [of axes] set_product_py [of axes] pick_product [of axes]
    sorted_index_product [of axes] by blast

theorem product_py_cartesian_witness:
  "length (product_py [[128, 256], [32], [1024, 1024 :: int]]) = 4
   \<and> [256, 32, 1024] \<in> set (product_py [[128, 256], [32], [1024, 1024 :: int]])
   \<and> product_py [[128, 256], [32], [1024, 1024 :: int]]
       = [[128, 32, 1024], [128, 32, 1024], [256, 32, 1024], [256, 32, 1024]]"
  using product_py_cartesian [of "[[128, 256], [32], [1024, 1024 :: int]]"]
  by simp

section \<open>Traces of the sweeps\<close>

lemma for_loop_concat:
  "(\<And>k x. x \<in> set xs \<Longrightarrow> body k x = Inr (ev k x))
   \<Longrightarrow> for_loop body i xs = Inr (concat (map (\<lambda>(k, x). ev k x) (enumerate i xs)))"
  by (induction xs arbitrary: i) simp_all

lemma started_models_append: "started_models (es @ es') = started_models es @ started_models es'"
  by (induction es rule: started_models.induct) simp_all

lemma started_models_concat: "started_models (concat ess) = concat (map started_models ess)"
  by (induction ess) (simp_all add: started_models_append)

lemma logged_errors_append: "logged_errors (es @ es') = logged_errors es @ logged_errors es'"
  by (induction es rule: logged_errors.induct) simp_all

lemma logged_errors_concat: "logged_errors (concat ess) = concat (map logged_errors ess)"
  by (induction ess) (simp_all add: logged_errors_append)

lemma concat_map_singleton: "concat (map (\<lambda>x. [f x]) xs) = map f xs"
  by (induction xs) simp_all

lemma throughput_loop_halts:
  "i < length perms \<Longrightarrow> (\<forall>j<i. get_status (k + j) = STATUS_COMPLETED)
   \<Longrightarrow> get_status (k + i) \<noteq> STATUS_COMPLETED
   \<Longrightarrow> throughput_loop get_status exp_path k perms dl
       = throughput_loop get_status exp_path k (take (Suc i) perms) dl"
proof (induction perms arbitrary: i k dl)
  case Nil
  then show ?case by simp
next
  case (Cons perm perms)
  show ?case
  proof (cases i)
    case 0
    with Cons.prems show ?thesis by (simp add: Let_def split: prod.splits)
  next
    case (Suc i')
    from Cons.prems Suc have done0: "get_status k = STATUS_COMPLETED" by force
    have rest: "\<forall>j<i'. get_status (Suc k + j) = STATUS_COMPLETED"
    proof (intro allI impI)
      fix j assume "j < i'"
      then have "Suc j < i" using Suc by simp
      with Cons.prems(2) have "get_status (k + Suc j) = STATUS_COMPLETED" by blast
      then show "get_status (Suc k + j) = STATUS_COMPLETED" by simp
    qed
    have fails: "get_status (Suc k + i') \<noteq> STATUS_COMPLETED"
      using Cons.prems(3) Suc by simp
    have len: "i' < length perms" using Cons.prems(1) Suc by simp
    have IH: "\<And>dl. throughput_loop get_status exp_path (Suc k) perms dl
                = throughput_loop get_status exp_path (Suc k) (take (Suc i') perms) dl"
      using Cons.IH [OF len rest fails] .
    show ?thesis
      using done0 Suc by (simp add: Let_def IH split: prod.splits)
  qed
qed

lemma throughput_scaling_run_Inr:
  "length perm = 3 \<Longrightarrow>
   throughput_scaling_run uuid4 get_status exp_path n db_cpus iterations k perm
     = Inr (projr (throughput_scaling_run uuid4 get_status exp_path n db_cpus iterations k perm))"
  by (simp add: throughput_scaling_run_def Let_def split: prod.splits)

lemma throughput_scaling_run_started:
  "length perm = 3 \<Longrightarrow>
   started_models (projr (throughput_scaling_run uuid4 get_status exp_path n db_cpus iterations k perm))
     = [fst (create_throughput_session exp_path (perm ! 0) (perm ! 1) n db_cpus iterations (perm ! 2) (uuid4 k))]"
  by (simp add: throughput_scaling_run_def create_throughput_session_def Let_def)

lemma throughput_scaling_group_Inr:
  "throughput_scaling_group uuid4 get_status exp_path db_cpus iterations
       clients_per_node client_nodes tensor_bytes g n
   = Inr ([Start_database n]
          @ concat (map (\<lambda>(k, perm). projr (throughput_scaling_run uuid4 get_status exp_path n db_cpus iterations k perm))
              (enumerate (g * length (product_py [client_nodes, clients_per_node, tensor_bytes]))
                 (product_py [client_nodes, clients_per_node, tensor_bytes])))
          @ [Stop_database n])"
proof -
  let ?perms = "product_py [client_nodes, clients_per_node, tensor_bytes]"
  have "for_loop (throughput_scaling_run uuid4 get_status exp_path n db_cpus iterations) (g * length ?perms) ?perms
        = Inr (concat (map (\<lambda>(k, perm). projr (throughput_scaling_run uuid4 get_status exp_path n db_cpus iterations k perm))
              (enumerate (g * length ?perms) ?perms)))"
    by (rule for_loop_concat) (auto dest!: length_in_product_py intro!: throughput_scaling_run_Inr)
  then show ?thesis by (simp add: throughput_scaling_group_def Let_def)
qed

lemma throughput_scaling_trace:
  "throughput_scaling uuid4 get_status exp_path db_nodes db_cpus clients_per_node client_nodes iterations tensor_bytes
   = Inr (concat (map (\<lambda>(g, n). projr (throughput_scaling_group uuid4 get_status exp_path db_cpus iterations
                                           clients_per_node client_nodes tensor_bytes g n))
            (enumerate 0 db_nodes)))"
  unfolding throughput_scaling_def
  by (rule for_loop_concat) (simp add: throughput_scaling_group_Inr)

lemma concat_map_single:
  "(\<And>x. x \<in> set xs \<Longrightarrow> g x = [f x]) \<Longrightarrow> concat (map g xs) = map f xs"
  by (induction xs) simp_all

lemma concat_map_filter:
  "(\<And>x. x \<in> set xs \<Longrightarrow> g x = (if P x then [f x] else [])) \<Longrightarrow> concat (map g xs) = map f (filter P xs)"
  by (induction xs) simp_all

lemma length6_product_py:
  "perm \<in> set (product_py [a1, a2, a3, a4, a5, a6]) \<Longrightarrow> length perm = 6"
  using length_in_product_py [of perm "[a1, a2, a3, a4, a5, a6]"] by simp

lemma length3_product_py:
  "perm \<in> set (product_py [a1, a2, a3]) \<Longrightarrow> length perm = 3"
  using length_in_product_py [of perm "[a1, a2, a3]"] by simp

lemma length4_product_py:
  "perm \<in> set (product_py [a1, a2, a3, a4]) \<Longrightarrow> length perm = 4"
  using length_in_product_py [of perm "[a1, a2, a3, a4]"] by simp

lemma in_enumerateD: "(k, x) \<in> set (enumerate i xs) \<Longrightarrow> x \<in> set xs"
  by (auto simp: in_set_enumerate_eq)

lemma throughput_scaling_runs_started:
  assumes "\<And>perm. perm \<in> set perms \<Longrightarrow> length perm = 3"
  shows "started_models (concat (map (\<lambda>(k, perm). projr (throughput_scaling_run uuid4 get_status exp_path n db_cpus iterations k perm))
              (enumerate i perms)))
         = map (\<lambda>(k, perm). fst (create_throughput_session exp_path (perm ! 0) (perm ! 1) n
                             db_cpus iterations (perm ! 2) (uuid4 k))) (enumerate i perms)"
proof -
  have "concat (map (\<lambda>x. started_models (case x of (k, perm) \<Rightarrow>
                  projr (throughput_scaling_run uuid4 get_status exp_path n db_cpus iterations k perm)))
          (enumerate i perms))
        = map (\<lambda>(k, perm). fst (create_throughput_session exp_path (perm ! 0) (perm ! 1) n
                             db_cpus iterations (perm ! 2) (uuid4 k))) (enumerate i perms)"
    by (rule concat_map_single)
       (auto dest!: in_enumerateD assms simp: throughput_scaling_run_started)
  then show ?thesis by (simp add: started_models_concat comp_def)
qed

lemma throughput_scaling_group_started:
  "started_models (projr (throughput_scaling_group uuid4 get_status exp_path db_cpus iterations
                            clients_per_node client_nodes tensor_bytes g n))
   = map (\<lambda>(k, perm). fst (create_throughput_session exp_path (perm ! 0) (perm ! 1) n
                             db_cpus iterations (perm ! 2) (uuid4 k)))
       (enumerate (g * length (product_py [client_nodes, clients_per_node, tensor_bytes]))
          (product_py [client_nodes, clients_per_node, tensor_bytes]))"
proof -
  have "started_models (concat (map (\<lambda>(k, perm). projr (throughput_scaling_run uuid4 get_status exp_path n db_cpus iterations k perm))
              (enumerate (g * length (product_py [client_nodes, clients_per_node, tensor_bytes]))
                 (product_py [client_nodes, clients_per_node, tensor_bytes]))))
        = map (\<lambda>(k, perm). fst (create_throughput_session exp_path (perm ! 0) (perm ! 1) n
                             db_cpus iterations (perm ! 2) (uuid4 k)))
            (enumerate (g * length (product_py [client_nodes, clients_per_node, tensor_bytes]))
               (product_py [client_nodes, clients_per_node, tensor_bytes]))"
    by (rule throughput_scaling_runs_started) (rule length3_product_py)
  then show ?thesis
    unfolding throughput_scaling_group_Inr sum.sel started_models_append
    by (simp del: product_py.simps)
qed

lemma throughput_scaling_started:
  "map_sum id started_models
        (throughput_scaling uuid4 get_status exp_path db_nodes db_cpus
           clients_per_node client_nodes iterations tensor_bytes)
       = Inr (concat (map (\<lambda>(g, n).
                 map (\<lambda>(k, perm). fst (create_throughput_session exp_path (perm ! 0) (perm ! 1) n
                                         db_cpus iterations (perm ! 2) (uuid4 k)))
                   (enumerate (g * length (product_py [client_nodes, clients_per_node, tensor_bytes]))
                      (product_py [client_nodes, clients_per_node, tensor_bytes])))
               (enumerate 0 db_nodes)))"
  unfolding throughput_scaling_trace
  by (simp add: started_models_concat comp_def throughput_scaling_group_started case_prod_unfold
           del: product_py.simps)

section \<open>Deployments of a trace\<close>





section \<open>Writing the run configuration\<close>

lemma plain_append [simp]: "plain (a @ b) = (plain a \<and> plain b)"
  by (auto simp: plain_def)

lemma plain_Cons [simp]: "plain (c # cs) = (c \<noteq> CHR ''%'' \<and> plain cs)"
  by (auto simp: plain_def)

lemma plain_Nil [simp]: "plain []"
  by (simp add: plain_def)

lemma plain_take: "plain s \<Longrightarrow> plain (take n s)"
  by (auto simp: plain_def dest: in_set_takeD)

lemma plain_str_nat: "plain (str_nat n)"
proof (induction n rule: str_nat.induct)
  case (1 n)
  have digit: "\<And>d. d < 10 \<Longrightarrow> ''0123456789'' ! d \<noteq> CHR ''%''"
  proof -
    fix d :: nat assume "d < 10"
    then have "''0123456789'' ! d \<in> set ''0123456789''" by (intro nth_mem) simp
    then show "''0123456789'' ! d \<noteq> CHR ''%''" by auto
  qed
  show ?case
  proof (cases "n < 10")
    case True
    then show ?thesis by (simp add: str_nat_small digit)
  next
    case False
    then have "plain (str_nat (n div 10))" using "1.IH" by simp
    moreover have "n mod 10 < 10" by simp
    ultimately show ?thesis using False by (simp add: str_nat_big digit)
  qed
qed

lemma plain_str_int [simp]: "plain (str_int i)"
  by (simp add: str_int_def plain_str_nat)

lemma plain_basename: "plain p \<Longrightarrow> plain (basename p)"
  by (auto simp: plain_def basename_def dest: set_takeWhileD)

lemma set_drop_escaped: "set (drop_escaped v) \<subseteq> set v"
  by (induction v rule: drop_escaped.induct) auto

lemma set_drop_keys: "set (drop_keys v) \<subseteq> set v"
proof (induction v rule: drop_keys.induct)
  case 1
  then show ?case by simp
next
  case (2 c cs)
  show ?case
  proof (cases "c = CHR ''%'' \<and> take 1 cs = ''(''
         \<and> takeWhile (\<lambda>x. x \<noteq> CHR '')'') (drop 1 cs) \<noteq> []
         \<and> take 2 (dropWhile (\<lambda>x. x \<noteq> CHR '')'') (drop 1 cs)) = '')s''")
    case True
    then have "set (drop_keys (drop 2 (dropWhile (\<lambda>x. x \<noteq> CHR '')'') (drop 1 cs))))
               \<subseteq> set (drop 2 (dropWhile (\<lambda>x. x \<noteq> CHR '')'') (drop 1 cs)))"
      using "2.IH"(1) by simp
    also have "\<dots> \<subseteq> set cs"
      by (meson set_drop_subset set_dropWhileD subsetI subset_trans in_mono)
    finally show ?thesis using True by auto
  next
    case False
    then have "set (drop_keys cs) \<subseteq> set cs" using "2.IH"(2) by blast
    then show ?thesis using False by auto
  qed
qed

lemma plain_valid: "plain v \<Longrightarrow> \<not> invalid_interpolation v"
  using set_drop_keys [of "drop_escaped v"] set_drop_escaped [of v]
  by (auto simp: plain_def invalid_interpolation_def)

lemma check_options_plain:
  "list_all (\<lambda>(k, v). plain v) kvs \<Longrightarrow> distinct (map (\<lambda>(k, v). str_lower k) kvs)
   \<Longrightarrow> (\<forall>(k, v) \<in> set kvs. str_lower k \<notin> set seen)
   \<Longrightarrow> check_options seen kvs = None"
proof (induction kvs arbitrary: seen)
  case Nil
  then show ?case by simp
next
  case (Cons kv kvs)
  obtain k v where kv: "kv = (k, v)" by (cases kv)
  have "check_options (str_lower k # seen) kvs = None"
    using Cons.prems kv by (intro Cons.IH) (auto simp: rev_image_eqI)
  then show ?case using Cons.prems kv by (simp add: plain_valid)
qed

lemma run_section_ok:
  "plain_environment env \<Longrightarrow> plain p \<Longrightarrow> check_options [] (run_section env p) = None"
  by (rule check_options_plain)
     (simp_all add: run_section_def plain_environment_def plain_basename str_lower_def)

lemma run_config_error_plain:
  "plain_environment env \<Longrightarrow> plain p \<Longrightarrow> list_all (\<lambda>(k, v). plain v) kwargs
   \<Longrightarrow> distinct (map (\<lambda>(k, v). str_lower k) kwargs)
   \<Longrightarrow> run_config_error env p kwargs = None"
  by (simp add: run_config_error_def run_section_ok check_options_plain)

lemma inference_session_ok:
  "plain_environment env \<Longrightarrow> plain exp_path \<Longrightarrow> plain device \<Longrightarrow> plain uid \<Longrightarrow>
   session_error env (snd (create_inference_session exp_path nodes tasks db_nodes db_cpus db_tpq
                             batch_size device num_devices uid)) = None"
  by (simp add: create_inference_session_def create_model_def path_join_def get_uuid_def Let_def
        run_config_error_plain plain_take str_lower_def)



section \<open>Life cycle of databases and sessions\<close>

lemma lifecycle_append: "lifecycle (es @ es') = lifecycle es @ lifecycle es'"
  by (induction es rule: lifecycle.induct) simp_all

lemma lifecycle_concat: "lifecycle (concat ess) = concat (map lifecycle ess)"
  by (induction ess) (simp_all add: lifecycle_append)

lemma inference_standard_run_Inr:
  assumes "plain_environment env" and "plain exp_path" and "plain device" and "plain (uuid4 k)"
    and "length perm = 6"
  shows "inference_standard_run env uuid4 get_status exp_path device num_devices k perm
         = Inr (projr (inference_standard_run env uuid4 get_status exp_path device num_devices k perm))"
  using inference_session_ok [OF assms(1-4), of "perm ! 0" "perm ! 1" "perm ! 2" "perm ! 3" "perm ! 4" "perm ! 5" num_devices] assms(5)
  by (simp add: inference_standard_run_def Let_def case_prod_unfold)

lemma inference_standard_run_lifecycle:
  assumes "plain_environment env" and "plain exp_path" and "plain device" and "plain (uuid4 k)"
    and "length perm = 6"
  shows "lifecycle (projr (inference_standard_run env uuid4 get_status exp_path device num_devices k perm))
         = (let m = fst (create_inference_session exp_path (perm ! 0) (perm ! 1) (perm ! 2) (perm ! 3)
                           (perm ! 4) (perm ! 5) device num_devices (uuid4 k))
            in [Start_database (perm ! 2), Start_model m, Stop_database (perm ! 2), Get_status m]
               @ (if get_status k \<noteq> STATUS_COMPLETED
                  then [Log_error (''One of the scaling tests failed '' @ model_name m)] else []))"
proof -
  have ok: "session_error env (snd (create_inference_session exp_path (perm ! 0) (perm ! 1) (perm ! 2) (perm ! 3)
                           (perm ! 4) (perm ! 5) device num_devices (uuid4 k))) = None"
    by (rule inference_session_ok) (rule assms)+
  have created: "lifecycle (snd (create_inference_session exp_path (perm ! 0) (perm ! 1) (perm ! 2) (perm ! 3)
                           (perm ! 4) (perm ! 5) device num_devices (uuid4 k))) = []"
    by (simp add: create_inference_session_def Let_def)
  show ?thesis
    using assms(5) ok created
    by (simp add: inference_standard_run_def Let_def case_prod_unfold lifecycle_append)
qed

lemma inference_standard_loop_lifecycle:
  assumes "plain_environment env" and "plain exp_path" and "plain device" and "\<forall>k. plain (uuid4 k)"
    and len: "\<And>perm. perm \<in> set perms \<Longrightarrow> length perm = 6"
  shows "map_sum id lifecycle
           (for_loop (inference_standard_run env uuid4 get_status exp_path device num_devices) i perms)
         = Inr (concat (map (\<lambda>(k, perm).
                  let m = fst (create_inference_session exp_path (perm ! 0) (perm ! 1) (perm ! 2) (perm ! 3)
                                 (perm ! 4) (perm ! 5) device num_devices (uuid4 k))
                  in [Start_database (perm ! 2), Start_model m, Stop_database (perm ! 2), Get_status m]
                     @ (if get_status k \<noteq> STATUS_COMPLETED
                        then [Log_error (''One of the scaling tests failed '' @ model_name m)] else []))
                (enumerate i perms)))"
proof -
  let ?run = "inference_standard_run env uuid4 get_status exp_path device num_devices"
  have trace: "for_loop ?run i perms = Inr (concat (map (\<lambda>(k, perm). projr (?run k perm)) (enumerate i perms)))"
    by (rule for_loop_concat) (rule inference_standard_run_Inr, (use assms in auto)+)
  have "map (\<lambda>x. lifecycle (case x of (k, perm) \<Rightarrow> projr (?run k perm))) (enumerate i perms)
        = map (\<lambda>(k, perm).
                  let m = fst (create_inference_session exp_path (perm ! 0) (perm ! 1) (perm ! 2) (perm ! 3)
                                 (perm ! 4) (perm ! 5) device num_devices (uuid4 k))
                  in [Start_database (perm ! 2), Start_model m, Stop_database (perm ! 2), Get_status m]
                     @ (if get_status k \<noteq> STATUS_COMPLETED
                        then [Log_error (''One of the scaling tests failed '' @ model_name m)] else []))
            (enumerate i perms)"
  proof (rule map_cong [OF refl])
    fix x assume "x \<in> set (enumerate i perms)"
    then have "snd x \<in> set perms" using in_enumerateD [of "fst x" "snd x" i perms] by simp
    then have "length (snd x) = 6" using len by blast
    then show "lifecycle (case x of (k, perm) \<Rightarrow> projr (?run k perm))
               = (case x of (k, perm) \<Rightarrow>
                  let m = fst (create_inference_session exp_path (perm ! 0) (perm ! 1) (perm ! 2) (perm ! 3)
                                 (perm ! 4) (perm ! 5) device num_devices (uuid4 k))
                  in [Start_database (perm ! 2), Start_model m, Stop_database (perm ! 2), Get_status m]
                     @ (if get_status k \<noteq> STATUS_COMPLETED
                        then [Log_error (''One of the scaling tests failed '' @ model_name m)] else []))"
      using inference_standard_run_lifecycle [of env exp_path device uuid4 "fst x" "snd x" get_status num_devices] assms(1-4)
      by (cases x) simp
  qed
  then have "lifecycle (concat (map (\<lambda>(k, perm). projr (?run k perm)) (enumerate i perms)))
        = concat (map (\<lambda>(k, perm).
                  let m = fst (create_inference_session exp_path (perm ! 0) (perm ! 1) (perm ! 2) (perm ! 3)
                                 (perm ! 4) (perm ! 5) device num_devices (uuid4 k))
                  in [Start_database (perm ! 2), Start_model m, Stop_database (perm ! 2), Get_status m]
                     @ (if get_status k \<noteq> STATUS_COMPLETED
                        then [Log_error (''One of the scaling tests failed '' @ model_name m)] else []))
            (enumerate i perms))"
    by (simp only: lifecycle_concat map_map comp_def)
  then show ?thesis
    unfolding trace map_sum.simps by (simp only:)
qed

lemma inference_standard_lifecycle:
  assumes "plain_environment env" and "plain exp_path" and "plain device" and "\<forall>k. plain (uuid4 k)"
  shows "map_sum id lifecycle
           (inference_standard env uuid4 get_status exp_path device num_devices
              client_nodes clients_per_node db_nodes db_cpus db_tpq batch_size)
         = Inr (concat (map (\<lambda>(k, perm).
                  let m = fst (create_inference_session exp_path (perm ! 0) (perm ! 1) (perm ! 2) (perm ! 3)
                                 (perm ! 4) (perm ! 5) device num_devices (uuid4 k))
                  in [Start_database (perm ! 2), Start_model m, Stop_database (perm ! 2), Get_status m]
                     @ (if get_status k \<noteq> STATUS_COMPLETED
                        then [Log_error (''One of the scaling tests failed '' @ model_name m)] else []))
                (enumerate 0 (product_py [client_nodes, clients_per_node, db_nodes, db_cpus, db_tpq, batch_size]))))"
  unfolding inference_standard_def Let_def
  by (rule inference_standard_loop_lifecycle [unfolded Let_def]) (use assms length6_product_py in blast)+

lemma throughput_scaling_run_lifecycle:
  "length perm = 3 \<Longrightarrow>
   lifecycle (projr (throughput_scaling_run uuid4 get_status exp_path n db_cpus iterations k perm))
   = (let m = fst (create_throughput_session exp_path (perm ! 0) (perm ! 1) n db_cpus iterations
                     (perm ! 2) (uuid4 k))
      in [Start_model m, Get_status m]
         @ (if get_status k \<noteq> STATUS_COMPLETED
            then [Log_error (''ERROR: One of the scaling tests failed '' @ model_name m)] else []))"
  by (simp add: throughput_scaling_run_def create_throughput_session_def Let_def)

lemma throughput_scaling_group_lifecycle:
  "lifecycle (projr (throughput_scaling_group uuid4 get_status exp_path db_cpus iterations
                       clients_per_node client_nodes tensor_bytes g n))
   = [Start_database n]
     @ concat (map (\<lambda>(k, perm).
                let m = fst (create_throughput_session exp_path (perm ! 0) (perm ! 1) n db_cpus iterations
                               (perm ! 2) (uuid4 k))
                in [Start_model m, Get_status m]
                   @ (if get_status k \<noteq> STATUS_COMPLETED
                      then [Log_error (''ERROR: One of the scaling tests failed '' @ model_name m)] else []))
          (enumerate (g * length (product_py [client_nodes, clients_per_node, tensor_bytes]))
             (product_py [client_nodes, clients_per_node, tensor_bytes])))
     @ [Stop_database n]"
proof -
  let ?perms = "product_py [client_nodes, clients_per_node, tensor_bytes]"
  let ?run = "throughput_scaling_run uuid4 get_status exp_path n db_cpus iterations"
  have "map (\<lambda>x. lifecycle (case x of (k, perm) \<Rightarrow> projr (?run k perm))) (enumerate (g * length ?perms) ?perms)
        = map (\<lambda>(k, perm).
                let m = fst (create_throughput_session exp_path (perm ! 0) (perm ! 1) n db_cpus iterations
                               (perm ! 2) (uuid4 k))
                in [Start_model m, Get_status m]
                   @ (if get_status k \<noteq> STATUS_COMPLETED
                      then [Log_error (''ERROR: One of the scaling tests failed '' @ model_name m)] else []))
            (enumerate (g * length ?perms) ?perms)"
  proof (rule map_cong [OF refl])
    fix x assume "x \<in> set (enumerate (g * length ?perms) ?perms)"
    then have "snd x \<in> set ?perms"
      using in_enumerateD [of "fst x" "snd x" "g * length ?perms" ?perms] by (simp del: product_py.simps)
    then have "length (snd x) = 3" by (rule length3_product_py)
    then show "lifecycle (case x of (k, perm) \<Rightarrow> projr (?run k perm))
               = (case x of (k, perm) \<Rightarrow>
                let m = fst (create_throughput_session exp_path (perm ! 0) (perm ! 1) n db_cpus iterations
                               (perm ! 2) (uuid4 k))
                in [Start_model m, Get_status m]
                   @ (if get_status k \<noteq> STATUS_COMPLETED
                      then [Log_error (''ERROR: One of the scaling tests failed '' @ model_name m)] else []))"
      by (cases x) (simp add: throughput_scaling_run_lifecycle)
  qed
  then have runs: "lifecycle (concat (map (\<lambda>(k, perm). projr (?run k perm)) (enumerate (g * length ?perms) ?perms)))
        = concat (map (\<lambda>(k, perm).
                let m = fst (create_throughput_session exp_path (perm ! 0) (perm ! 1) n db_cpus iterations
                               (perm ! 2) (uuid4 k))
                in [Start_model m, Get_status m]
                   @ (if get_status k \<noteq> STATUS_COMPLETED
                      then [Log_error (''ERROR: One of the scaling tests failed '' @ model_name m)] else []))
            (enumerate (g * length ?perms) ?perms))"
    by (simp only: lifecycle_concat map_map comp_def)
  show ?thesis
    unfolding throughput_scaling_group_Inr sum.sel lifecycle_append runs
    by (simp del: product_py.simps)
qed

lemma throughput_scaling_lifecycle:
  "map_sum id lifecycle
     (throughput_scaling uuid4 get_status exp_path db_nodes db_cpus
        clients_per_node client_nodes iterations tensor_bytes)
   = Inr (concat (map (\<lambda>(g, n).
            [Start_database n]
            @ concat (map (\<lambda>(k, perm).
                let m = fst (create_throughput_session exp_path (perm ! 0) (perm ! 1) n db_cpus iterations
                               (perm ! 2) (uuid4 k))
                in [Start_model m, Get_status m]
                   @ (if get_status k \<noteq> STATUS_COMPLETED
                      then [Log_error (''ERROR: One of the scaling tests failed '' @ model_name m)] else []))
                (enumerate (g * length (product_py [client_nodes, clients_per_node, tensor_bytes]))
                   (product_py [client_nodes, clients_per_node, tensor_bytes])))
            @ [Stop_database n])
          (enumerate 0 db_nodes)))"
  unfolding throughput_scaling_trace
  by (simp add: lifecycle_concat comp_def throughput_scaling_group_lifecycle case_prod_unfold
           del: product_py.simps)

section \<open>Run configuration before launch\<close>



lemma write_run_config_sections:
  "write_run_config env fs p kwargs = Inr fs' \<Longrightarrow>
   map_option (map fst) (fs' (path_join p ''run.cfg'')) = Some [''run'', ''attributes'']"
  by (auto simp: write_run_config_def Let_def split: option.splits)

lemma write_run_config_Inr:
  "run_config_error env p kwargs = None \<Longrightarrow> \<exists>fs'. write_run_config env fs p kwargs = Inr fs'"
  by (simp add: write_run_config_def Let_def)

lemma session_launched:
  assumes "session_error env [Generate_model m, Write_run_config (model_path m) kwargs] = None"
  shows "launched_with_config env fs
           ([Generate_model m, Write_run_config (model_path m) kwargs] @ Start_model m # rest)
         = launched_with_config env (written_configs env fs [Generate_model m, Write_run_config (model_path m) kwargs]) rest"
proof -
  have ok: "run_config_error env (model_path m) kwargs = None"
    using assms by (simp split: option.splits)
  then obtain fs' where w: "write_run_config env fs (model_path m) kwargs = Inr fs'"
    using write_run_config_Inr by blast
  then show ?thesis using write_run_config_sections [OF w] by simp
qed













section \<open>Failure of a client job\<close>

text \<open>
  Claim C1, as amended. In \<^verbatim>\<open>cpp-throughput/driver.py\<close> a session that ends in a status other than
  completed on permutation \<open>i\<close> ends the loop: the result is that of the sweep cut after
  permutation \<open>i\<close>. In \<^verbatim>\<open>driver.py\<close> the failure is only logged and the loop goes on. When no
  value of a run configuration holds a percent sign, so that writing it cannot raise, the
  standard inference sweep does for every permutation in turn: start a database, start the
  session, stop the database, check the status, and log an error when the status is not
  completed; and the throughput sweep does for every entry of \<open>db_nodes\<close> in turn: start the
  database, then for every permutation start the session, check the status and log an
  error when it is not completed, then stop the database.
\<close>

theorem sweep_failure_policy:
  "(i < length perms \<and> (\<forall>j<i. get_status (k + j) = STATUS_COMPLETED) \<and> get_status (k + i) \<noteq> STATUS_COMPLETED
      \<longrightarrow> throughput_loop get_status exp_path k perms dl
            = throughput_loop get_status exp_path k (take (Suc i) perms) dl)
   \<and> (plain_environment env \<and> plain exp_path \<and> plain device \<and> (\<forall>k. plain (uuids k))
      \<longrightarrow> map_sum id lifecycle
            (inference_standard env uuids get_status exp_path device num_devices
               client_nodes clients_per_node db_nodes db_cpus db_tpq batch_size)
          = Inr (concat (map (\<lambda>(k, perm).
                   let m = fst (create_inference_session exp_path (perm ! 0) (perm ! 1) (perm ! 2) (perm ! 3)
                                  (perm ! 4) (perm ! 5) device num_devices (uuids k))
                   in [Start_database (perm ! 2), Start_model m, Stop_database (perm ! 2), Get_status m]
                      @ (if get_status k \<noteq> STATUS_COMPLETED
                         then [Log_error (''One of the scaling tests failed '' @ model_name m)] else []))
                 (enumerate 0 (product_py [client_nodes, clients_per_node, db_nodes, db_cpus, db_tpq, batch_size])))))
   \<and> (plain_environment env \<and> plain exp_path \<and> (\<forall>k. plain (uuids k))
      \<longrightarrow> map_sum id lifecycle
            (throughput_scaling uuids get_status exp_path group_sizes cpus
               clients_per_node client_nodes iterations tensor_bytes)
          = Inr (concat (map (\<lambda>(g, n).
               [Start_database n]
               @ concat (map (\<lambda>(k, perm).
                   let m = fst (create_throughput_session exp_path (perm ! 0) (perm ! 1) n cpus iterations
                                  (perm ! 2) (uuids k))
                   in [Start_model m, Get_status m]
                      @ (if get_status k \<noteq> STATUS_COMPLETED
                         then [Log_error (''ERROR: One of the scaling tests failed '' @ model_name m)] else []))
                   (enumerate (g * length (product_py [client_nodes, clients_per_node, tensor_bytes]))
                      (product_py [client_nodes, clients_per_node, tensor_bytes])))
               @ [Stop_database n])
             (enumerate 0 group_sizes))))"
  using throughput_loop_halts [of i perms get_status k exp_path dl]
    inference_standard_lifecycle [of env exp_path device uuids get_status num_devices
           client_nodes clients_per_node db_nodes db_cpus db_tpq batch_size]
    throughput_scaling_lifecycle [of uuids get_status exp_path group_sizes cpus
           clients_per_node client_nodes iterations tensor_bytes]
  by blast

theorem sweep_failure_policy_witness:
  "throughput_loop (status_list [STATUS_COMPLETED, STATUS_FAILED]) ''exp'' 0
      [[1, 1, 1, 8], [1, 1, 1, 16], [1, 1, 1, 32]] []
   = throughput_loop (status_list [STATUS_COMPLETED, STATUS_FAILED]) ''exp'' 0
      [[1, 1, 1, 8], [1, 1, 1, 16]] []
   \<and> map_sum id lifecycle
        (inference_standard
           \<lparr>smartsim_version = ''0.4.0'', db_backend = ''redis-server'', today = ''2022-03-01''\<rparr>
           (uuid_list [''1b9d6bcd-bbfd-4b2d-9b5d-ab8dfbbd4bed''])
           (status_list [STATUS_COMPLETED, STATUS_FAILED]) ''exp'' ''GPU'' 1 [12] [48] [12] [2] [1] [1000, 1])
     = Inr [Start_database 12,
            Start_model (Model ''infer-sess-N12-T48-DBN12-DBC2-DBTPQ1-1b9d''
                          ''exp/infer-sess-N12-T48-DBN12-DBC2-DBTPQ1-1b9d''),
            Stop_database 12,
            Get_status (Model ''infer-sess-N12-T48-DBN12-DBC2-DBTPQ1-1b9d''
                          ''exp/infer-sess-N12-T48-DBN12-DBC2-DBTPQ1-1b9d''),
            Start_database 12,
            Start_model (Model ''infer-sess-N12-T48-DBN12-DBC2-DBTPQ1-0000''
                          ''exp/infer-sess-N12-T48-DBN12-DBC2-DBTPQ1-0000''),
            Stop_database 12,
            Get_status (Model ''infer-sess-N12-T48-DBN12-DBC2-DBTPQ1-0000''
                          ''exp/infer-sess-N12-T48-DBN12-DBC2-DBTPQ1-0000''),
            Log_error ''One of the scaling tests failed infer-sess-N12-T48-DBN12-DBC2-DBTPQ1-0000'']
   \<and> map_sum id lifecycle
        (throughput_scaling (uuid_list [''1b9d6bcd-bbfd-4b2d-9b5d-ab8dfbbd4bed''])
           (status_list [STATUS_COMPLETED, STATUS_FAILED]) ''exp'' [16] 36 [48] [12] 100 [1024, 2048])
     = Inr [Start_database 16,
            Start_model (Model ''throughput-sess-N12-T48-DBN16-ITER100-TB1024-1b9d''
                          ''exp/throughput-sess-N12-T48-DBN16-ITER100-TB1024-1b9d''),
            Get_status (Model ''throughput-sess-N12-T48-DBN16-ITER100-TB1024-1b9d''
                          ''exp/throughput-sess-N12-T48-DBN16-ITER100-TB1024-1b9d''),
            Start_model (Model ''throughput-sess-N12-T48-DBN16-ITER100-TB2048-0000''
                          ''exp/throughput-sess-N12-T48-DBN16-ITER100-TB2048-0000''),
            Get_status (Model ''throughput-sess-N12-T48-DBN16-ITER100-TB2048-0000''
                          ''exp/throughput-sess-N12-T48-DBN16-ITER100-TB2048-0000''),
            Log_error ''ERROR: One of the scaling tests failed throughput-sess-N12-T48-DBN16-ITER100-TB2048-0000'',
            Stop_database 16]"
  using sweep_failure_policy [where i = 1 and perms = "[[1, 1, 1, 8], [1, 1, 1, 16], [1, 1, 1, 32]]"
      and get_status = "status_list [STATUS_COMPLETED, STATUS_FAILED]" and k = 0
      and exp_path = "''exp''" and dl = "[]"
      and env = "\<lparr>smartsim_version = ''0.4.0'', db_backend = ''redis-server'', today = ''2022-03-01''\<rparr>"
      and uuids = "uuid_list [''1b9d6bcd-bbfd-4b2d-9b5d-ab8dfbbd4bed'']"
      and device = "''GPU''" and num_devices = 1 and client_nodes = "[12]" and clients_per_node = "[48]"
      and db_nodes = "[12]" and db_cpus = "[2]" and db_tpq = "[1]" and batch_size = "[1000, 1]"
      and group_sizes = "[16]" and cpus = 36 and iterations = 100 and tensor_bytes = "[1024, 2048]"]
  by (simp add: plain_environment_def session_eval str_eval)

text \<open>
  The claim as stated fails in \<^verbatim>\<open>throughput_scaling\<close>: the first of two sessions fails, and
  the second is started all the same; the database is stopped after both.
\<close>

theorem throughput_scaling_continues_counterexample:
  "status_list [STATUS_FAILED] 0 = STATUS_FAILED
   \<and> throughput_scaling
        (uuid_list [''1b9d6bcd-bbfd-4b2d-9b5d-ab8dfbbd4bed'', ''6ec0bd7f-11c0-43da-975e-2a8ad9ebae0b''])
        (status_list [STATUS_FAILED]) ''throughput-scaling'' [12] 36 [32] [128] 100 [1024, 2048]
     = Inr [Start_database 12,
            Generate_model
             (Model ''throughput-sess-N128-T32-DBN12-ITER100-TB1024-1b9d''
               ''throughput-scaling/throughput-sess-N128-T32-DBN12-ITER100-TB1024-1b9d''),
            Write_run_config
             ''throughput-scaling/throughput-sess-N128-T32-DBN12-ITER100-TB1024-1b9d''
             [(''client_total'', ''4096''), (''client_per_node'', ''32''),
              (''client_nodes'', ''128''), (''database_nodes'', ''12''),
              (''database_cpus'', ''36''), (''iterations'', ''100''),
              (''tensor_bytes'', ''1024'')],
            Start_model
             (Model ''throughput-sess-N128-T32-DBN12-ITER100-TB1024-1b9d''
               ''throughput-scaling/throughput-sess-N128-T32-DBN12-ITER100-TB1024-1b9d''),
            Get_status
             (Model ''throughput-sess-N128-T32-DBN12-ITER100-TB1024-1b9d''
               ''throughput-scaling/throughput-sess-N128-T32-DBN12-ITER100-TB1024-1b9d''),
            Log_error
             ''ERROR: One of the scaling tests failed throughput-sess-N128-T32-DBN12-ITER100-TB1024-1b9d'',
            Generate_model
             (Model ''throughput-sess-N128-T32-DBN12-ITER100-TB2048-6ec0''
               ''throughput-scaling/throughput-sess-N128-T32-DBN12-ITER100-TB2048-6ec0''),
            Write_run_config
             ''throughput-scaling/throughput-sess-N128-T32-DBN12-ITER100-TB2048-6ec0''
             [(''client_total'', ''4096''), (''client_per_node'', ''32''),
              (''client_nodes'', ''128''), (''database_nodes'', ''12''),
              (''database_cpus'', ''36''), (''iterations'', ''100''),
              (''tensor_bytes'', ''2048'')],
            Start_model
             (Model ''throughput-sess-N128-T32-DBN12-ITER100-TB2048-6ec0''
               ''throughput-scaling/throughput-sess-N128-T32-DBN12-ITER100-TB2048-6ec0''),
            Get_status
             (Model ''throughput-sess-N128-T32-DBN12-ITER100-TB2048-6ec0''
               ''throughput-scaling/throughput-sess-N128-T32-DBN12-ITER100-TB2048-6ec0''),
            Stop_database 12]"
  by (simp add: throughput_scaling_def throughput_scaling_group_def throughput_scaling_run_def
        session_eval str_eval)

text \<open>
  The sweep of \<^verbatim>\<open>cpp-throughput/driver.py\<close> at a failing first session: the loop ends, and the
  trace holds no stop of the database that was started.
\<close>

lemma throughput_break_trace:
  "throughput (status_list [STATUS_FAILED]) ''throughput-scaling-tests'' [15] [48] [160] [1024, 8192]
   = Inr [Get_allocation 160, Start_database 15,
          Generate_model
           (Model ''throughput-sess-160-48-15-1024''
             ''throughput-scaling-tests/throughput-sess-160-48-15-1024''),
          Start_model
           (Model ''throughput-sess-160-48-15-1024''
             ''throughput-scaling-tests/throughput-sess-160-48-15-1024''),
          Get_status
           (Model ''throughput-sess-160-48-15-1024''
             ''throughput-scaling-tests/throughput-sess-160-48-15-1024''),
          Log_error ''ERROR: One of the scaling tests failed throughput-sess-160-48-15-1024'',
          Save_summary [], Release_allocation]"
  by (simp add: throughput_def session_eval str_eval)

section \<open>Empty axes\<close>

text \<open>
  Claim C3, as amended. Permutation generation never fails and is a pure function: it
  yields no permutation exactly when some axis has no candidate value. Then the loop body
  of the sweep never runs: \<^verbatim>\<open>inference_standard\<close> returns with an empty trace, and the sweep of
  \<^verbatim>\<open>cpp-throughput/driver.py\<close>, given a non-empty list of client nodes, obtains and releases its
  allocation and starts no database and no session.
\<close>

theorem permutation_generation_total:
  "(product_py axes = []) = ([] \<in> set axes)
   \<and> ([] \<in> set [client_nodes, clients_per_node, db_nodes, db_cpus, db_tpq, batch_size]
        \<longrightarrow> inference_standard env uuids get_status exp_path device num_devices
              client_nodes clients_per_node db_nodes db_cpus db_tpq batch_size = Inr [])
   \<and> (nodes \<noteq> [] \<and> [] \<in> set [per_node, sizes, tensor_bytes]
        \<longrightarrow> throughput get_status exp_path sizes per_node nodes tensor_bytes
            = Inr [Get_allocation (Max (set nodes)), Save_summary [], Release_allocation])"
proof (intro conjI impI)
  show "(product_py axes = []) = ([] \<in> set axes)" by (rule product_py_empty_iff)
next
  assume "[] \<in> set [client_nodes, clients_per_node, db_nodes, db_cpus, db_tpq, batch_size]"
  then have "product_py [client_nodes, clients_per_node, db_nodes, db_cpus, db_tpq, batch_size] = []"
    by (simp only: product_py_empty_iff)
  then show "inference_standard env uuids get_status exp_path device num_devices
              client_nodes clients_per_node db_nodes db_cpus db_tpq batch_size = Inr []"
    by (simp only: inference_standard_def Let_def for_loop.simps)
next
  assume a: "nodes \<noteq> [] \<and> [] \<in> set [per_node, sizes, tensor_bytes]"
  then have "[] \<in> set [nodes, per_node, sizes, tensor_bytes]" by auto
  then have "product_py [nodes, per_node, sizes, tensor_bytes] = []"
    by (simp only: product_py_empty_iff)
  then show "throughput get_status exp_path sizes per_node nodes tensor_bytes
            = Inr [Get_allocation (Max (set nodes)), Save_summary [], Release_allocation]"
    using a by (simp add: throughput_def Let_def del: product_py.simps)
qed

theorem permutation_generation_total_witness:
  "inference_standard \<lparr>smartsim_version = ''0.4.0'', db_backend = ''redis-server'', today = ''2022-03-01''\<rparr>
     (uuid_list []) (status_list []) ''inference-scaling'' ''GPU'' 1
     [12] [] [12] [2] [1] [1000] = Inr []
   \<and> throughput (status_list []) ''inference-scaling'' [15] [48] [160, 20] []
     = Inr [Get_allocation 160, Save_summary [], Release_allocation]"
  using permutation_generation_total [where axes = "[[12], []]" and client_nodes = "[12]" and clients_per_node = "[]"
      and db_nodes = "[12]" and db_cpus = "[2]" and db_tpq = "[1]" and batch_size = "[1000]"
      and env = "\<lparr>smartsim_version = ''0.4.0'', db_backend = ''redis-server'', today = ''2022-03-01''\<rparr>"
      and uuids = "uuid_list []" and get_status = "status_list []"
      and exp_path = "''inference-scaling''" and device = "''GPU''" and num_devices = 1
      and nodes = "[160, 20]" and per_node = "[48]" and sizes = "[15]" and tensor_bytes = "[]"]
  by simp

text \<open>
  The claim as stated fails: with an empty \<open>db_nodes\<close> axis the generator returns the empty
  list and the sweep returns normally; no error is raised.
\<close>

theorem empty_axis_no_error_counterexample:
  "product_py [[12], [48], [], [2], [1], [1000 :: int]] = []
   \<and> inference_standard \<lparr>smartsim_version = ''0.4.0'', db_backend = ''redis-server'', today = ''2022-03-01''\<rparr>
        (uuid_list []) (status_list []) ''inference-scaling'' ''GPU'' 1
        [12] [48] [] [2] [1] [1000] = Inr []"
  by (simp add: inference_standard_def)

section \<open>Run names\<close>

text \<open>
  Claim C4, as amended. In \<^verbatim>\<open>driver.py\<close> a run name is the dash-joined run kind, the tagged
  values of nodes, tasks per node, database nodes, database cpus and threads per queue
  (inference) or of nodes, tasks per node, database nodes, iterations and tensor bytes
  (throughput), and the first four characters of a uuid4 string. Two sessions made from the
  same parameters are the same session, name and directory, exactly when the two tokens are
  equal. In \<^verbatim>\<open>cpp-throughput/driver.py\<close> the name is the run kind and the four parameter values,
  with no token.
\<close>

theorem run_name_token:
  "(fst (create_inference_session exp_path nodes tasks db_nodes db_cpus db_tpq batch_size device num_devices uid)
      = fst (create_inference_session exp_path nodes tasks db_nodes db_cpus db_tpq batch_size device num_devices uid'))
     = (take 4 uid = take 4 uid')
   \<and> (fst (create_colocated_inference_session exp_path nodes tasks pin_app_cpus db_cpus db_tpq batch_size device num_devices uid)
      = fst (create_colocated_inference_session exp_path nodes tasks pin_app_cpus db_cpus db_tpq batch_size device num_devices uid'))
     = (take 4 uid = take 4 uid')
   \<and> (fst (create_throughput_session exp_path nodes tasks db_nodes db_cpus iterations bytes uid)
      = fst (create_throughput_session exp_path nodes tasks db_nodes db_cpus iterations bytes uid'))
     = (take 4 uid = take 4 uid')
   \<and> model_name (fst (create_inference_session exp_path nodes tasks db_nodes db_cpus db_tpq batch_size device num_devices uid))
     = ''infer-sess-N'' @ str_int nodes @ ''-T'' @ str_int tasks @ ''-DBN'' @ str_int db_nodes
       @ ''-DBC'' @ str_int db_cpus @ ''-DBTPQ'' @ str_int db_tpq @ ''-'' @ take 4 uid
   \<and> model_name (fst (create_colocated_inference_session exp_path nodes tasks pin_app_cpus db_cpus db_tpq batch_size device num_devices uid))
     = ''infer-sess-colo-N'' @ str_int nodes @ ''-T'' @ str_int tasks @ ''-DBN'' @ str_int nodes
       @ ''-DBC'' @ str_int db_cpus @ ''-DBTPQ'' @ str_int db_tpq @ ''-'' @ take 4 uid
   \<and> model_name (fst (create_throughput_session exp_path nodes tasks db_nodes db_cpus iterations bytes uid))
     = ''throughput-sess-N'' @ str_int nodes @ ''-T'' @ str_int tasks @ ''-DBN'' @ str_int db_nodes
       @ ''-ITER'' @ str_int iterations @ ''-TB'' @ str_int bytes @ ''-'' @ take 4 uid
   \<and> model_name (fst (create_throughput_session_slurm exp_path nodes tasks db_nodes bytes))
     = ''throughput-sess-'' @ str_int nodes @ ''-'' @ str_int tasks @ ''-'' @ str_int db_nodes
       @ ''-'' @ str_int bytes"
  by (simp add: create_inference_session_def create_colocated_inference_session_def
        create_throughput_session_def create_throughput_session_slurm_def create_model_def
        path_join_def get_uuid_def Let_def)

text \<open>
  The claim as stated fails: two different uuid4 strings that agree on their first four
  characters give the same name and directory; the inference name does not hold the batch
  size, so two runs that differ in it alone share their name under one token; and the name
  of \<^verbatim>\<open>cpp-throughput/driver.py\<close> has no random part.
\<close>

theorem run_name_collision_counterexample:
  "''1b9d6bcd-bbfd-4b2d-9b5d-ab8dfbbd4bed'' \<noteq> ''1b9d0a1e-58cc-4372-a567-0e02b2c3d479''
   \<and> fst (create_throughput_session ''throughput-scaling'' 128 32 12 36 100 1024
             ''1b9d6bcd-bbfd-4b2d-9b5d-ab8dfbbd4bed'')
     = fst (create_throughput_session ''throughput-scaling'' 128 32 12 36 100 1024
             ''1b9d0a1e-58cc-4372-a567-0e02b2c3d479'')
   \<and> fst (create_inference_session ''inference-scaling'' 12 48 12 2 1 1000 ''GPU'' 1
             ''1b9d6bcd-bbfd-4b2d-9b5d-ab8dfbbd4bed'')
     = fst (create_inference_session ''inference-scaling'' 12 48 12 2 1 1 ''GPU'' 1
             ''1b9d6bcd-bbfd-4b2d-9b5d-ab8dfbbd4bed'')
   \<and> fst (create_throughput_session_slurm ''throughput-scaling-tests'' 160 48 15 1024)
     = Model ''throughput-sess-160-48-15-1024'' ''throughput-scaling-tests/throughput-sess-160-48-15-1024''"
  by (simp add: session_eval str_eval)

section \<open>The run configuration record\<close>




text \<open>
  A value with a percent sign that is not an interpolation makes the write raise: the
  standard inference sweep with device \<^verbatim>\<open>50%\<close> ends with the exception at its first session.
\<close>

lemma inference_standard_percent_raises:
  "inference_standard
     \<lparr>smartsim_version = ''0.4.0'', db_backend = ''redis-server'', today = ''2022-03-01''\<rparr>
     (uuid_list [''1b9d6bcd-bbfd-4b2d-9b5d-ab8dfbbd4bed'']) (status_list [])
     ''exp'' ''50%'' 1 [12] [48] [12] [2] [1] [1000] = Inl ValueError"
  by (simp add: inference_standard_def inference_standard_run_def run_config_error_def run_section_ok
        plain_valid plain_environment_def invalid_interpolation_def str_lower_def session_eval str_eval)

section \<open>Grouped reuse of the database\<close>


section \<open>Result aggregation\<close>





lemma warnings_append: "warnings (es @ es') = warnings es @ warnings es'"
  by (induction es rule: warnings.induct) simp_all

lemma scanned_append: "scanned (es @ es') = scanned es @ scanned es'"
  by (induction es rule: scanned.induct) simp_all

lemma collect_loop_frames:
  "fst (collect_loop read_csv result_dir runs fs dataframes)
   = dataframes @ readable_frames read_csv result_dir fs runs"
  by (induction runs arbitrary: dataframes)
     (simp_all add: readable_frames_def Let_def case_prod_unfold split: sum.splits)



lemma collect_loop_warnings:
  "warnings (snd (collect_loop read_csv result_dir runs fs dataframes))
   = map (\<lambda>run. ''Skipping '' @ run @ '' could not read results csv'')
       (filter (\<lambda>run. isl (pd_read_csv read_csv fs (results_path result_dir run))) runs)"
  by (induction runs arbitrary: dataframes)
     (simp_all add: Let_def case_prod_unfold split: sum.splits)


lemma create_run_csv_calls_scans [simp]: "create_run_csv_calls (map Scan_raw_files ps) = []"
  by (induction ps) simp_all

lemma read_csv_calls_scans [simp]: "read_csv_calls (map Scan_raw_files ps) = []"
  by (induction ps) simp_all

lemma warnings_scans [simp]: "warnings (map Scan_raw_files ps) = []"
  by (induction ps) simp_all

lemma scanned_scans [simp]: "scanned (map Scan_raw_files ps) = ps"
  by (induction ps) simp_all



lemma process_loop_warnings:
  "length (warnings (snd (process_loop create_run_csv scaling_dir overwrite runs fs))) \<le> length runs"
  by (induction runs arbitrary: fs)
     (auto simp: Let_def case_prod_unfold warnings_append split: option.splits intro: le_SucI)

section \<open>Fault tolerance of the aggregation\<close>

lemma process_loop_extracted:
  "fst (process_loop create_run_csv scaling_dir overwrite runs fs)
   = extracted_files create_run_csv scaling_dir overwrite runs fs"
  by (induction runs arbitrary: fs) (simp_all add: extracted_files_def Let_def case_prod_unfold)

lemma extracted_files_Cons:
  "extracted_files create_run_csv scaling_dir overwrite (run # runs) fs
   = extracted_files create_run_csv scaling_dir overwrite runs
       (fst (create_run_csv (path_join scaling_dir run) overwrite fs))"
  by (simp add: extracted_files_def)

lemma extracted_files_Nil:
  "extracted_files create_run_csv scaling_dir overwrite [] fs = fs"
  by (simp add: extracted_files_def)

lemma upt_0_Suc: "[0..<Suc n] = 0 # map Suc [0..<n]"
  by (simp add: upt_conv_Cons map_Suc_upt del: upt_Suc)

lemma process_loop_log:
  "snd (process_loop create_run_csv scaling_dir overwrite runs fs)
   = concat (map (\<lambda>i.
       [Call_create_run_csv (path_join scaling_dir (runs ! i)) overwrite]
       @ map Scan_raw_files
           (fst (snd (create_run_csv (path_join scaling_dir (runs ! i)) overwrite
                        (extracted_files create_run_csv scaling_dir overwrite (take i runs) fs))))
       @ (case snd (snd (create_run_csv (path_join scaling_dir (runs ! i)) overwrite
                           (extracted_files create_run_csv scaling_dir overwrite (take i runs) fs))) of
            None \<Rightarrow> []
          | Some e \<Rightarrow> [Log_warning (''Skipping '' @ runs ! i @ '' could not process results''),
                      Log_exception e]))
     [0..<length runs])"
proof (induction runs arbitrary: fs)
  case Nil
  then show ?case by simp
next
  case (Cons run runs)
  show ?case
    unfolding length_Cons upt_0_Suc
    by (simp add: Let_def case_prod_unfold Cons.IH extracted_files_Cons extracted_files_Nil comp_def
          del: upt_Suc cong: option.case_cong)
qed

lemma collect_loop_log:
  "snd (collect_loop read_csv result_dir runs fs dataframes)
   = concat (map (\<lambda>run.
       case pd_read_csv read_csv fs (results_path result_dir run) of
         Inr run_df \<Rightarrow> [Call_read_csv (results_path result_dir run)]
       | Inl e \<Rightarrow> [Call_read_csv (results_path result_dir run),
                   Log_warning (''Skipping '' @ run @ '' could not read results csv''),
                   Log_exception e]) runs)"
  by (induction runs arbitrary: dataframes)
     (simp_all add: Let_def case_prod_unfold split: sum.splits)


text \<open>
  Claim C5, as amended. Given the entries of the directory, the pass hands every selected
  run to \<^verbatim>\<open>create_run_csv\<close>, in order, each on the files the runs before it left; an exception
  raised there is logged, with a warning naming the run, and the loop goes on. Then the
  per-run CSV of every selected run is read from the files that extraction left, whether
  or not the extraction of that run raised: a run whose CSV cannot be read is logged, with
  a warning naming the run, and left out. When no per-run CSV could be read the pass logs
  the failure and ends in an error; otherwise it writes the combined CSV from the frames
  that could be read, in the order of the runs, and ends normally.
\<close>

theorem aggregation_fault_tolerance:
  "process_scaling_results create_run_csv read_csv to_csv date (Some entries) scaling_dir overwrite fs
   = (let runs = filter (\<lambda>d. sub_in ''sess'' d) entries;
          result_dir = path_join scaling_dir ''results'';
          fs1 = extracted_files create_run_csv scaling_dir overwrite runs fs;
          log1 = concat (map (\<lambda>i.
                   [Call_create_run_csv (path_join scaling_dir (runs ! i)) overwrite]
                   @ map Scan_raw_files
                       (fst (snd (create_run_csv (path_join scaling_dir (runs ! i)) overwrite
                                    (extracted_files create_run_csv scaling_dir overwrite (take i runs) fs))))
                   @ (case snd (snd (create_run_csv (path_join scaling_dir (runs ! i)) overwrite
                                       (extracted_files create_run_csv scaling_dir overwrite (take i runs) fs))) of
                        None \<Rightarrow> []
                      | Some e \<Rightarrow> [Log_warning (''Skipping '' @ runs ! i @ '' could not process results''),
                                  Log_exception e]))
                 [0..<length runs]);
          log2 = concat (map (\<lambda>run.
                   case pd_read_csv read_csv fs1 (results_path result_dir run) of
                     Inr run_df \<Rightarrow> [Call_read_csv (results_path result_dir run)]
                   | Inl e \<Rightarrow> [Call_read_csv (results_path result_dir run),
                               Log_warning (''Skipping '' @ run @ '' could not read results csv''),
                               Log_exception e]) runs);
          aggregated = readable_frames read_csv result_dir fs1 runs
      in if aggregated = []
         then (fs1, log1 @ log2 @ [Log_failure ''Could not preprocess results''], Some ValueError)
         else (fs1(path_join result_dir (basename scaling_dir @ ''-'' @ date @ ''.csv'')
                     \<mapsto> to_csv (concat aggregated)),
               log1 @ log2, None))
   \<and> (snd (snd (process_scaling_results create_run_csv read_csv to_csv date (Some entries)
                   scaling_dir overwrite fs)) = None)
     = (\<exists>run \<in> set (filter (\<lambda>d. sub_in ''sess'' d) entries).
          \<not> isl (pd_read_csv read_csv
                   (extracted_files create_run_csv scaling_dir overwrite
                      (filter (\<lambda>d. sub_in ''sess'' d) entries) fs)
                   (results_path (path_join scaling_dir ''results'') run)))"
proof -
  let ?runs = "filter (\<lambda>d. sub_in ''sess'' d) entries"
  let ?rd = "path_join scaling_dir ''results''"
  let ?pl = "process_loop create_run_csv scaling_dir overwrite ?runs fs"
  let ?cl = "collect_loop read_csv ?rd ?runs (fst ?pl) []"
  let ?fs1 = "extracted_files create_run_csv scaling_dir overwrite ?runs fs"
  have frames: "fst (collect_loop read_csv ?rd ?runs ?fs1 []) = readable_frames read_csv ?rd ?fs1 ?runs"
    using collect_loop_frames [of read_csv ?rd ?runs ?fs1 "[]"] by simp
  have unfold: "process_scaling_results create_run_csv read_csv to_csv date (Some entries) scaling_dir overwrite fs
     = (if fst ?cl = []
        then (fst ?pl, snd ?pl @ snd ?cl @ [Log_failure ''Could not preprocess results''], Some ValueError)
        else ((fst ?pl)(path_join ?rd (basename scaling_dir @ ''-'' @ date @ ''.csv'') \<mapsto> to_csv (concat (fst ?cl))),
              snd ?pl @ snd ?cl, None))"
    by (simp add: process_scaling_results_def Let_def case_prod_unfold)
  have one: "((case x of Inl e \<Rightarrow> [] | Inr df \<Rightarrow> [df]) = []) = isl x" for x :: "error + 'c list"
    by (cases x) simp_all
  have readable: "(readable_frames read_csv ?rd files ?runs = [])
      = (\<forall>run \<in> set ?runs. isl (pd_read_csv read_csv files (results_path ?rd run)))" for files
    unfolding readable_frames_def concat_eq_Nil_conv by (simp add: one del: set_filter)
  show ?thesis
    unfolding unfold frames process_loop_log collect_loop_log process_loop_extracted
    by (simp add: Let_def readable)
qed

theorem aggregation_fault_tolerance_witness:
  "process_scaling_results (\<lambda>p ow fs. (fs, [], if p = ''exp/infer-sess-b'' then Some ExtractionError else None))
     Some id ''2022-03-01''
     (Some [''results'', ''infer-sess-a'', ''infer-sess-b'', ''infer-sess-c'']) ''exp'' False
     [''exp/results/infer-sess-a/infer-sess-a.csv'' \<mapsto> [''row a''],
      ''exp/results/infer-sess-c/infer-sess-c.csv'' \<mapsto> [''row c'']]
   = ([''exp/results/infer-sess-a/infer-sess-a.csv'' \<mapsto> [''row a''],
       ''exp/results/infer-sess-c/infer-sess-c.csv'' \<mapsto> [''row c''],
       ''exp/results/exp-2022-03-01.csv'' \<mapsto> [''row a'', ''row c'']],
      [Call_create_run_csv ''exp/infer-sess-a'' False,
       Call_create_run_csv ''exp/infer-sess-b'' False,
       Log_warning ''Skipping infer-sess-b could not process results'',
       Log_exception ExtractionError,
       Call_create_run_csv ''exp/infer-sess-c'' False,
       Call_read_csv ''exp/results/infer-sess-a/infer-sess-a.csv'',
       Call_read_csv ''exp/results/infer-sess-b/infer-sess-b.csv'',
       Log_warning ''Skipping infer-sess-b could not read results csv'',
       Log_exception FileNotFoundError,
       Call_read_csv ''exp/results/infer-sess-c/infer-sess-c.csv''],
      None)"
  using aggregation_fault_tolerance [of "\<lambda>p ow fs. (fs, [], if p = ''exp/infer-sess-b'' then Some ExtractionError else None)"
      Some id "''2022-03-01''"
      "[''results'', ''infer-sess-a'', ''infer-sess-b'', ''infer-sess-c'']" "''exp''" False
      "[''exp/results/infer-sess-a/infer-sess-a.csv'' \<mapsto> [''row a''],
        ''exp/results/infer-sess-c/infer-sess-c.csv'' \<mapsto> [''row c'']]"]
  by (simp add: extracted_files_def readable_frames_def pd_read_csv_def results_path_def path_join_def
        basename_def Let_def upt_rec [of _ "numeral _"] )

text \<open>
  The claim as stated fails: the extraction of the only run raises and is logged as
  skipped, yet the per-run CSV that an earlier pass left is read and merged, and the pass
  ends normally.
\<close>

theorem stale_csv_merged_counterexample:
  "process_scaling_results (\<lambda>p ow fs. (fs, [p], Some ExtractionError)) Some id ''2022-03-01''
     (Some [''results'', ''infer-sess-a'']) ''exp'' True
     [''exp/results/infer-sess-a/infer-sess-a.csv'' \<mapsto> [''stale row'']]
   = ([''exp/results/infer-sess-a/infer-sess-a.csv'' \<mapsto> [''stale row''],
       ''exp/results/exp-2022-03-01.csv'' \<mapsto> [''stale row'']],
      [Call_create_run_csv ''exp/infer-sess-a'' True,
       Scan_raw_files ''exp/infer-sess-a'',
       Log_warning ''Skipping infer-sess-a could not process results'',
       Log_exception ExtractionError,
       Call_read_csv ''exp/results/infer-sess-a/infer-sess-a.csv''],
      None)"
  by (simp add: process_scaling_results_def pd_read_csv_def results_path_def path_join_def
        basename_def Let_def)

section \<open>Selection of the run directories\<close>

lemma path_join_inject: "(path_join a b = path_join a b') = (b = b')"
  by (simp add: path_join_def)

lemma results_path_inject: "(results_path rd r = results_path rd r') = (r = r')"
proof
  assume "results_path rd r = results_path rd r'"
  then have eq: "r @ ''/'' @ r @ ''.csv'' = r' @ ''/'' @ r' @ ''.csv''"
    by (simp add: results_path_def path_join_def)
  have "length (r @ ''/'' @ r @ ''.csv'') = length (r' @ ''/'' @ r' @ ''.csv'')"
    using arg_cong [OF eq, of length] .
  then have "length r = length r'" by simp
  with eq show "r = r'" by simp
qed simp



section \<open>Extraction skipped when the per-run CSV exists\<close>

lemma basename_path_join: "CHR ''/'' \<notin> set b \<Longrightarrow> basename (path_join a b) = b"
proof -
  assume nb: "CHR ''/'' \<notin> set b"
  have "takeWhile (\<lambda>c. c \<noteq> CHR ''/'') (rev b @ CHR ''/'' # rev a) = rev b @ takeWhile (\<lambda>c. c \<noteq> CHR ''/'') (CHR ''/'' # rev a)"
    by (rule takeWhile_append2) (use nb in auto)
  then show ?thesis by (simp add: basename_def path_join_def)
qed

lemma dirname_path_join: "CHR ''/'' \<notin> set b \<Longrightarrow> dirname (path_join a b) = a"
proof -
  assume nb: "CHR ''/'' \<notin> set b"
  have "dropWhile (\<lambda>c. c \<noteq> CHR ''/'') (rev b @ CHR ''/'' # rev a) = dropWhile (\<lambda>c. c \<noteq> CHR ''/'') (CHR ''/'' # rev a)"
    by (rule dropWhile_append2) (use nb in auto)
  then show ?thesis by (simp add: dirname_def path_join_def)
qed

lemma basename_no_slash: "CHR ''/'' \<notin> set (basename p)"
  using set_takeWhileD [of "CHR ''/''" "\<lambda>c. c \<noteq> CHR ''/''" "rev p"]
  by (auto simp: basename_def)

text \<open>One call of the modelled extractor on the path of a run.\<close>

lemma create_run_csv_spec_run:
  "CHR ''/'' \<notin> set run \<Longrightarrow>
   create_run_csv_spec scan (path_join scaling_dir run) delete_previous fs
   = (let csv = results_path (path_join scaling_dir ''results'') run
      in if fs csv \<noteq> None \<and> \<not> delete_previous then (fs, [], None)
         else (case scan (path_join scaling_dir run) of
                 None \<Rightarrow> (fs, [path_join scaling_dir run], Some ExtractionError)
               | Some content \<Rightarrow> (fs(csv \<mapsto> content), [path_join scaling_dir run], None)))"
  by (simp add: create_run_csv_spec_def basename_path_join dirname_path_join Let_def)

lemma create_run_csv_spec_keeps:
  "CHR ''/'' \<notin> set run \<Longrightarrow> fs q \<noteq> None \<Longrightarrow>
   fst (create_run_csv_spec scan (path_join scaling_dir run) False fs) q = fs q"
  by (auto simp: create_run_csv_spec_run Let_def split: option.splits)

lemma create_run_csv_spec_skips:
  "CHR ''/'' \<notin> set run \<Longrightarrow> fs (results_path (path_join scaling_dir ''results'') run) \<noteq> None \<Longrightarrow>
   create_run_csv_spec scan (path_join scaling_dir run) False fs = (fs, [], None)"
  by (simp add: create_run_csv_spec_run Let_def)

lemma create_run_csv_spec_scans:
  "CHR ''/'' \<notin> set run \<Longrightarrow>
   set (fst (snd (create_run_csv_spec scan (path_join scaling_dir run) False fs)))
   \<subseteq> (if fs (results_path (path_join scaling_dir ''results'') run) = None
       then {path_join scaling_dir run} else {})"
  by (auto simp: create_run_csv_spec_run Let_def split: option.splits)

lemma process_loop_keeps:
  "(\<And>run. run \<in> set runs \<Longrightarrow> CHR ''/'' \<notin> set run) \<Longrightarrow> fs q \<noteq> None \<Longrightarrow>
   fst (process_loop (create_run_csv_spec scan) scaling_dir False runs fs) q = fs q"
proof (induction runs arbitrary: fs)
  case Nil
  then show ?case by simp
next
  case (Cons run runs)
  let ?fs1 = "fst (create_run_csv_spec scan (path_join scaling_dir run) False fs)"
  have keep1: "?fs1 q = fs q"
    using Cons.prems by (simp add: create_run_csv_spec_keeps)
  then have "?fs1 q \<noteq> None" using Cons.prems by simp
  then have "fst (process_loop (create_run_csv_spec scan) scaling_dir False runs ?fs1) q = ?fs1 q"
    using Cons.IH Cons.prems(1) by simp
  then show ?case by (simp add: Let_def case_prod_unfold keep1)
qed

lemma process_loop_scanned:
  "(\<And>run. run \<in> set runs \<Longrightarrow> CHR ''/'' \<notin> set run) \<Longrightarrow>
   set (scanned (snd (process_loop (create_run_csv_spec scan) scaling_dir False runs fs)))
   \<subseteq> {path_join scaling_dir run | run. run \<in> set runs
         \<and> fs (results_path (path_join scaling_dir ''results'') run) = None}"
proof (induction runs arbitrary: fs)
  case Nil
  then show ?case by simp
next
  case (Cons run runs)
  let ?fs1 = "fst (create_run_csv_spec scan (path_join scaling_dir run) False fs)"
  have slash: "CHR ''/'' \<notin> set run" using Cons.prems by simp
  have here: "set (fst (snd (create_run_csv_spec scan (path_join scaling_dir run) False fs)))
     \<subseteq> (if fs (results_path (path_join scaling_dir ''results'') run) = None
       then {path_join scaling_dir run} else {})"
    by (rule create_run_csv_spec_scans) (rule slash)
  have later: "set (scanned (snd (process_loop (create_run_csv_spec scan) scaling_dir False runs ?fs1)))
     \<subseteq> {path_join scaling_dir r | r. r \<in> set runs
         \<and> ?fs1 (results_path (path_join scaling_dir ''results'') r) = None}"
    using Cons.IH Cons.prems by simp
  have mono: "\<And>q. ?fs1 q = None \<Longrightarrow> fs q = None"
    using create_run_csv_spec_keeps [OF slash, of fs _ scan scaling_dir] by force
  have "set (scanned (snd (process_loop (create_run_csv_spec scan) scaling_dir False (run # runs) fs)))
        = set (fst (snd (create_run_csv_spec scan (path_join scaling_dir run) False fs)))
          \<union> set (scanned (snd (process_loop (create_run_csv_spec scan) scaling_dir False runs ?fs1)))"
    by (simp add: Let_def case_prod_unfold scanned_append split: option.splits)
  also have "\<dots> \<subseteq> {path_join scaling_dir r | r. r \<in> set (run # runs)
         \<and> fs (results_path (path_join scaling_dir ''results'') r) = None}"
    using here later mono by (auto split: if_splits)
  finally show ?case .
qed


lemma collect_loop_no_scans:
  "scanned (snd (collect_loop read_csv result_dir runs fs dataframes)) = []"
  by (induction runs arbitrary: dataframes)
     (simp_all add: Let_def case_prod_unfold split: sum.splits)

lemma create_run_csv_spec_files:
  "CHR ''/'' \<notin> set run \<Longrightarrow>
   fst (create_run_csv_spec scan (path_join scaling_dir run) False fs) q
   = (if q = results_path (path_join scaling_dir ''results'') run \<and> fs q = None
      then scan (path_join scaling_dir run) else fs q)"
  by (auto simp: create_run_csv_spec_run Let_def split: option.splits)

lemma process_loop_files:
  "(\<And>run. run \<in> set runs \<Longrightarrow> CHR ''/'' \<notin> set run) \<Longrightarrow> fs q = None \<Longrightarrow>
   fst (process_loop (create_run_csv_spec scan) scaling_dir False runs fs) q
   = (case find (\<lambda>run. results_path (path_join scaling_dir ''results'') run = q) runs of
        None \<Rightarrow> None
      | Some run \<Rightarrow> scan (path_join scaling_dir run))"
proof (induction runs arbitrary: fs)
  case Nil
  then show ?case by simp
next
  case (Cons r rs)
  let ?csv = "\<lambda>run. results_path (path_join scaling_dir ''results'') run"
  let ?fs1 = "fst (create_run_csv_spec scan (path_join scaling_dir r) False fs)"
  have slash: "CHR ''/'' \<notin> set r" using Cons.prems by simp
  have slashes: "\<And>run. run \<in> set rs \<Longrightarrow> CHR ''/'' \<notin> set run" using Cons.prems by simp
  have step: "?fs1 q = (if q = ?csv r then scan (path_join scaling_dir r) else None)"
    using Cons.prems(2) by (simp add: create_run_csv_spec_files [OF slash])
  have unfold: "fst (process_loop (create_run_csv_spec scan) scaling_dir False (r # rs) fs) q
                = fst (process_loop (create_run_csv_spec scan) scaling_dir False rs ?fs1) q"
    by (simp add: Let_def case_prod_unfold)
  show ?case
  proof (cases "?fs1 q")
    case None
    have rest: "fst (process_loop (create_run_csv_spec scan) scaling_dir False rs ?fs1) q
          = (case find (\<lambda>run. ?csv run = q) rs of None \<Rightarrow> None
             | Some run \<Rightarrow> scan (path_join scaling_dir run))"
      using Cons.IH [of ?fs1] slashes None by simp
    show ?thesis
    proof (cases "?csv r = q")
      case True
      then have none: "scan (path_join scaling_dir r) = None" using step None by simp
      have "\<And>run. find (\<lambda>run. ?csv run = q) rs = Some run \<Longrightarrow> run = r"
        using True by (auto simp: find_Some_iff results_path_inject)
      then have "(case find (\<lambda>run. ?csv run = q) rs of None \<Rightarrow> None
             | Some run \<Rightarrow> scan (path_join scaling_dir run)) = None"
        using none by (auto split: option.splits)
      then show ?thesis unfolding unfold rest using True none by simp
    next
      case False
      then show ?thesis unfolding unfold rest by simp
    qed
  next
    case (Some c)
    then have here: "q = ?csv r" "scan (path_join scaling_dir r) = Some c"
      using step by (auto split: if_splits)
    have "?fs1 q \<noteq> None" using Some by simp
    then have "fst (process_loop (create_run_csv_spec scan) scaling_dir False rs ?fs1) q = ?fs1 q"
      using process_loop_keeps [of rs ?fs1 q scan scaling_dir] slashes by blast
    then show ?thesis unfolding unfold using here Some by simp
  qed
qed

lemma combined_path_differs:
  "CHR ''/'' \<notin> set date \<Longrightarrow>
   path_join result_dir (basename scaling_dir @ ''-'' @ date @ ''.csv'') \<noteq> results_path result_dir run"
proof
  assume nd: "CHR ''/'' \<notin> set date"
  assume "path_join result_dir (basename scaling_dir @ ''-'' @ date @ ''.csv'') = results_path result_dir run"
  then have eq: "basename scaling_dir @ ''-'' @ date @ ''.csv'' = run @ ''/'' @ run @ ''.csv''"
    by (simp add: results_path_def path_join_def)
  have "set (basename scaling_dir @ ''-'' @ date @ ''.csv'') = set (run @ ''/'' @ run @ ''.csv'')"
    using arg_cong [OF eq, of set] .
  then have "CHR ''/'' \<in> set (basename scaling_dir @ ''-'' @ date @ ''.csv'')" by simp
  then show False using nd basename_no_slash [of scaling_dir] by simp
qed

lemma process_scaling_results_files:
  "CHR ''/'' \<notin> set date \<Longrightarrow>
   fst (process_scaling_results create_run_csv read_csv to_csv date (Some entries) scaling_dir overwrite fs)
     (results_path (path_join scaling_dir ''results'') run)
   = fst (process_loop create_run_csv scaling_dir overwrite (filter (\<lambda>d. sub_in ''sess'' d) entries) fs)
       (results_path (path_join scaling_dir ''results'') run)"
  using combined_path_differs [of date "path_join scaling_dir ''results''" scaling_dir run]
  by (simp add: process_scaling_results_def Let_def case_prod_unfold)

lemma process_scaling_results_scanned:
  "scanned (fst (snd (process_scaling_results create_run_csv read_csv to_csv date (Some entries) scaling_dir overwrite fs)))
   = scanned (snd (process_loop create_run_csv scaling_dir overwrite (filter (\<lambda>d. sub_in ''sess'' d) entries) fs))"
  by (simp add: process_scaling_results_def Let_def case_prod_unfold scanned_append collect_loop_no_scans)


lemma find_results_path:
  "run \<in> set runs \<Longrightarrow>
   (case find (\<lambda>r. results_path result_dir r = results_path result_dir run) runs of
      None \<Rightarrow> None
    | Some r \<Rightarrow> g r) = g run"
  by (auto simp: results_path_inject find_None_iff find_Some_iff split: option.splits)

lemma process_loop_csv:
  assumes "\<And>run. run \<in> set runs \<Longrightarrow> CHR ''/'' \<notin> set run" and "run \<in> set runs"
    and "fs (results_path (path_join scaling_dir ''results'') run) = None"
  shows "fst (process_loop (create_run_csv_spec scan) scaling_dir False runs fs)
           (results_path (path_join scaling_dir ''results'') run)
         = scan (path_join scaling_dir run)"
proof -
  have "fst (process_loop (create_run_csv_spec scan) scaling_dir False runs fs)
           (results_path (path_join scaling_dir ''results'') run)
        = (case find (\<lambda>r. results_path (path_join scaling_dir ''results'') r
                            = results_path (path_join scaling_dir ''results'') run) runs of
             None \<Rightarrow> None
           | Some r \<Rightarrow> scan (path_join scaling_dir r))"
    by (rule process_loop_files) (use assms in auto)
  also have "\<dots> = scan (path_join scaling_dir run)"
    by (rule find_results_path) (rule assms(2))
  finally show ?thesis .
qed

lemma process_loop_not_scanned:
  assumes "\<And>run. run \<in> set runs \<Longrightarrow> CHR ''/'' \<notin> set run"
    and "fs (results_path (path_join scaling_dir ''results'') run) \<noteq> None"
  shows "path_join scaling_dir run
         \<notin> set (scanned (snd (process_loop (create_run_csv_spec scan) scaling_dir False runs fs)))"
proof
  assume "path_join scaling_dir run
         \<in> set (scanned (snd (process_loop (create_run_csv_spec scan) scaling_dir False runs fs)))"
  then have "path_join scaling_dir run \<in> {path_join scaling_dir r | r. r \<in> set runs
         \<and> fs (results_path (path_join scaling_dir ''results'') r) = None}"
    using process_loop_scanned [of runs scan scaling_dir fs] assms(1) by blast
  then show False using assms(2) by (auto simp: path_join_inject)
qed

lemma second_pass_csv:
  assumes slashes: "\<And>run. run \<in> set runs \<Longrightarrow> CHR ''/'' \<notin> set run" and run: "run \<in> set runs"
    and first: "\<And>r. fs1 (results_path (path_join scaling_dir ''results'') r)
                = fst (process_loop (create_run_csv_spec scan) scaling_dir False runs fs)
                    (results_path (path_join scaling_dir ''results'') r)"
  shows "fst (process_loop (create_run_csv_spec scan) scaling_dir False runs fs1)
           (results_path (path_join scaling_dir ''results'') run)
         = fs1 (results_path (path_join scaling_dir ''results'') run)"
proof (cases "fs1 (results_path (path_join scaling_dir ''results'') run)")
  case (Some c)
  then show ?thesis using process_loop_keeps [of runs fs1 _ scan scaling_dir] slashes by simp
next
  case None
  let ?csv = "results_path (path_join scaling_dir ''results'') run"
  have after: "fst (process_loop (create_run_csv_spec scan) scaling_dir False runs fs) ?csv = None"
    using None first by simp
  have before: "fs ?csv = None"
  proof (rule ccontr)
    assume "fs ?csv \<noteq> None"
    then have "fst (process_loop (create_run_csv_spec scan) scaling_dir False runs fs) ?csv = fs ?csv"
      using process_loop_keeps [of runs fs ?csv scan scaling_dir] slashes by simp
    with after \<open>fs ?csv \<noteq> None\<close> show False by simp
  qed
  have "fst (process_loop (create_run_csv_spec scan) scaling_dir False runs fs) ?csv
        = scan (path_join scaling_dir run)"
    by (rule process_loop_csv) (use slashes run before in auto)
  then have none: "scan (path_join scaling_dir run) = None"
    using after by simp
  have "fst (process_loop (create_run_csv_spec scan) scaling_dir False runs fs1) ?csv
        = scan (path_join scaling_dir run)"
    by (rule process_loop_csv) (use slashes run None in auto)
  then show ?thesis
    using none None by simp
qed

text \<open>
  Claim C6, against the extractor modelled from the spec. Let the entries of the scaling
  directory be plain names. In a pass without the overwrite flag, a selected run whose
  per-run CSV exists keeps that CSV unchanged and its raw files are not scanned. A second
  such pass over the files left by the first leaves the per-run CSV of every selected run
  as the first pass left it.
\<close>

theorem extraction_idempotent_by_existence:
  assumes "\<forall>run \<in> set entries. CHR ''/'' \<notin> set run"
    and "CHR ''/'' \<notin> set date" and "CHR ''/'' \<notin> set later"
  shows "\<forall>run \<in> set entries. sub_in ''sess'' run \<longrightarrow>
     (fs (results_path (path_join scaling_dir ''results'') run) \<noteq> None \<longrightarrow>
        fst (process_scaling_results (create_run_csv_spec scan) read_csv to_csv date
               (Some entries) scaling_dir False fs)
          (results_path (path_join scaling_dir ''results'') run)
        = fs (results_path (path_join scaling_dir ''results'') run)
        \<and> path_join scaling_dir run
          \<notin> set (scanned (fst (snd (process_scaling_results (create_run_csv_spec scan) read_csv to_csv date
                                       (Some entries) scaling_dir False fs)))))
     \<and> fst (process_scaling_results (create_run_csv_spec scan) read_csv to_csv later
               (Some entries) scaling_dir False
               (fst (process_scaling_results (create_run_csv_spec scan) read_csv to_csv date
                       (Some entries) scaling_dir False fs)))
          (results_path (path_join scaling_dir ''results'') run)
       = fst (process_scaling_results (create_run_csv_spec scan) read_csv to_csv date
                (Some entries) scaling_dir False fs)
           (results_path (path_join scaling_dir ''results'') run)"
proof (intro ballI impI conjI)
  let ?runs = "filter (\<lambda>d. sub_in ''sess'' d) entries"
  let ?csv = "\<lambda>run. results_path (path_join scaling_dir ''results'') run"
  let ?pass = "\<lambda>d f. process_scaling_results (create_run_csv_spec scan) read_csv to_csv d
                 (Some entries) scaling_dir False f"
  have slashes: "\<And>run. run \<in> set ?runs \<Longrightarrow> CHR ''/'' \<notin> set run"
    using assms(1) by simp
  fix run
  assume run: "run \<in> set entries" and sess: "sub_in ''sess'' run"
  then have inruns: "run \<in> set ?runs" by simp
  {
    assume exists: "fs (?csv run) \<noteq> None"
    show "fst (?pass date fs) (?csv run) = fs (?csv run)"
      using process_loop_keeps [of ?runs fs "?csv run" scan scaling_dir] slashes exists
      by (simp add: process_scaling_results_files [OF assms(2)])
    show "path_join scaling_dir run \<notin> set (scanned (fst (snd (?pass date fs))))"
      unfolding process_scaling_results_scanned
      by (rule process_loop_not_scanned) (use slashes exists in auto)
  }
  have first: "\<And>r. fst (?pass date fs) (?csv r)
                = fst (process_loop (create_run_csv_spec scan) scaling_dir False ?runs fs) (?csv r)"
    by (rule process_scaling_results_files) (rule assms(2))
  show "fst (?pass later (fst (?pass date fs))) (?csv run) = fst (?pass date fs) (?csv run)"
    unfolding process_scaling_results_files [OF assms(3)]
    by (rule second_pass_csv) (use slashes inruns first in auto)
qed

theorem extraction_idempotent_by_existence_witness:
  "fst (process_scaling_results (create_run_csv_spec (\<lambda>p. Some ''fresh'')) (\<lambda>c. Some [c]) concat ''2022-03-01''
          (Some [''results'', ''infer-sess-a'', ''infer-sess-b'']) ''exp'' False
          [''exp/results/infer-sess-a/infer-sess-a.csv'' \<mapsto> ''kept''])
     ''exp/results/infer-sess-a/infer-sess-a.csv'' = Some ''kept''
   \<and> scanned (fst (snd (process_scaling_results (create_run_csv_spec (\<lambda>p. Some ''fresh'')) (\<lambda>c. Some [c]) concat
          ''2022-03-01'' (Some [''results'', ''infer-sess-a'', ''infer-sess-b'']) ''exp'' False
          [''exp/results/infer-sess-a/infer-sess-a.csv'' \<mapsto> ''kept''])))
     = [''exp/infer-sess-b'']"
proof -
  have names: "\<forall>run \<in> set [''results'', ''infer-sess-a'', ''infer-sess-b'']. CHR ''/'' \<notin> set run"
    by simp
  have day: "CHR ''/'' \<notin> set ''2022-03-01''" by simp
  have ev: ?thesis
    by (simp add: process_scaling_results_def create_run_csv_spec_def pd_read_csv_def results_path_def
          path_join_def basename_def dirname_def Let_def)
  show ?thesis
    using extraction_idempotent_by_existence [OF names day day,
        of "[''exp/results/infer-sess-a/infer-sess-a.csv'' \<mapsto> ''kept'']" "''exp''"
           "\<lambda>p. Some ''fresh''" "\<lambda>c. Some [c]" concat]
    by - (rule ev)
qed

end
